theory Spec2Isabelle
  imports Complex_Main
begin

section \<open>JavaScript values, errors and the runtime\<close>

text \<open>
  JavaScript numbers are modelled as rationals: every number the generator and the layout
  engine compute is a small integer or a quotient of small integers, where double
  arithmetic and exact arithmetic agree up to rounding that no comparison below depends on.
  A number-valued property that may be missing is a \<open>jsnum\<close>: \<open>Undefined\<close> stands for
  \<open>undefined\<close> and \<open>null\<close>, which every test of the source treats alike.
  String-valued fields are strings; a field that may be missing is an \<open>option\<close>.
\<close>

datatype jsnum = Undefined | Num rat

text \<open>\<open>Number.isInteger\<close>.\<close>

definition isInteger :: "rat \<Rightarrow> bool" where
  "isInteger q = (of_int \<lfloor>q\<rfloor> = q)"

definition numIsInteger :: "jsnum \<Rightarrow> bool" where
  "numIsInteger v = (case v of Undefined \<Rightarrow> False | Num q \<Rightarrow> isInteger q)"

text \<open>Truthiness, as \<open>||\<close>, \<open>&&\<close> and \<open>!\<close> test it.\<close>

definition truthy_num :: "jsnum \<Rightarrow> bool" where
  "truthy_num v = (case v of Undefined \<Rightarrow> False | Num q \<Rightarrow> q \<noteq> 0)"

definition truthy_str :: "string option \<Rightarrow> bool" where
  "truthy_str v = (case v of None \<Rightarrow> False | Some s \<Rightarrow> s \<noteq> [])"

text \<open>\<open>v || d\<close> for an optional string and for an optional boolean.\<close>

definition str_or :: "string option \<Rightarrow> string \<Rightarrow> string" where
  "str_or v d = (case v of None \<Rightarrow> d | Some s \<Rightarrow> if s \<noteq> [] then s else d)"

definition bool_or :: "bool option \<Rightarrow> bool \<Rightarrow> bool" where
  "bool_or v d = (case v of None \<Rightarrow> d | Some b \<Rightarrow> if b then b else d)"

text \<open>Every \<open>throw\<close> of the modelled classes, one constructor per message.\<close>

datatype error =
    Operand1Invalid
  | Operand2Invalid
  | OperatorInvalid
  | ResultIncorrect
  | NegativeSubtractionResult
  | InvalidDifficulty
  | InvalidOperationType
  | InvalidLayout
  | InvalidBackgroundStyle
  | ProblemCountOutOfRange
  | CustomBackgroundUrlRequired
  | ConfigurationRequired
  | UnsupportedOperationType
  | RatiosMustSumToOne
  | AdditionRatioOutOfRange
  | NoProblemsProvided
  | LayoutConfigurationRequired
  | GeneratedLayoutInvalid
  | TypeError

text \<open>
  What \<open>Math.random()\<close> returns: a number in \<open>[0, 1)\<close>. \<open>unit_of\<close> names such a
  number (and is \<open>0\<close> outside the interval).
\<close>

typedef unit_rat = "{q :: rat. 0 \<le> q \<and> q < 1}"
  by (rule exI [of _ 0]) simp

setup_lifting type_definition_unit_rat

lift_definition unit_of :: "rat \<Rightarrow> unit_rat" is "\<lambda>q. if 0 \<le> q \<and> q < 1 then q else 0"
  by simp

text \<open>
  The runtime the classes act on: \<open>Math.random()\<close> is a fixed sequence of numbers of
  which \<open>draws\<close> counts how many were consumed, and \<open>console\<close> collects the messages of
  \<open>console.warn\<close>. The clock (\<open>new Date()\<close>, \<open>Date.now()\<close>) is left out: no modelled
  decision reads it.
\<close>

type_synonym rng = "nat \<Rightarrow> unit_rat"

record runtime =
  draws :: nat
  console :: "string list"

definition random :: "rng \<Rightarrow> 'a runtime_scheme \<Rightarrow> rat \<times> 'a runtime_scheme" where
  "random rnd s = (Rep_unit_rat (rnd (draws s)), s\<lparr>draws := Suc (draws s)\<rparr>)"

definition warn :: "string \<Rightarrow> 'a runtime_scheme \<Rightarrow> 'a runtime_scheme" where
  "warn msg s = s\<lparr>console := console s @ [msg]\<rparr>"

text \<open>\<open>v || d\<close> for a number.\<close>

definition num_or :: "jsnum \<Rightarrow> rat \<Rightarrow> rat" where
  "num_or v d = (case v of Undefined \<Rightarrow> d | Num q \<Rightarrow> if q \<noteq> 0 then q else d)"

text \<open>Decimal digits of an integer, as a template literal prints it.\<close>

definition digit_char :: "nat \<Rightarrow> char" where
  "digit_char d = ''0123456789'' ! d"

fun decimal_digits :: "nat \<Rightarrow> nat list" where
  "decimal_digits n = (if n < 10 then [n] else n mod 10 # decimal_digits (n div 10))"

declare decimal_digits.simps [simp del]

definition show_nat :: "nat \<Rightarrow> string" where
  "show_nat n = map digit_char (rev (decimal_digits n))"

definition number_to_string :: "int \<Rightarrow> string" where
  "number_to_string i = (if 0 \<le> i then show_nat (nat i) else CHR ''-'' # show_nat (nat (- i)))"

section \<open>The constant tables (constants.js)\<close>

text \<open>
  A table is an object literal. \<open>TABLE[key]\<close> finds the table's own entries and, through
  the prototype chain, the members of \<open>Object.prototype\<close>, which are all truthy and carry
  none of the entries' fields; any other key gives \<open>undefined\<close>.
\<close>

datatype 'a lookup = Absent | Inherited | Own 'a

definition object_prototype_names :: "string list" where
  "object_prototype_names =
     [''constructor'', ''hasOwnProperty'', ''isPrototypeOf'', ''propertyIsEnumerable'',
      ''toLocaleString'', ''toString'', ''valueOf'', ''__proto__'',
      ''__defineGetter__'', ''__defineSetter__'', ''__lookupGetter__'', ''__lookupSetter__'']"

definition get_prop :: "(string \<rightharpoonup> 'a) \<Rightarrow> string \<Rightarrow> 'a lookup" where
  "get_prop tbl k =
     (case tbl k of
        Some v \<Rightarrow> Own v
      | None \<Rightarrow> if k \<in> set object_prototype_names then Inherited else Absent)"

definition truthy_lookup :: "'a lookup \<Rightarrow> bool" where
  "truthy_lookup p = (case p of Absent \<Rightarrow> False | Inherited \<Rightarrow> True | Own v \<Rightarrow> True)"

record difficulty_level =
  maxNumber :: rat
  minNumber :: rat

definition DIFFICULTY_LEVELS :: "string \<rightharpoonup> difficulty_level" where
  "DIFFICULTY_LEVELS = map_of
     [(''within10'', \<lparr>maxNumber = 10, minNumber = 1\<rparr>),
      (''within20'', \<lparr>maxNumber = 20, minNumber = 1\<rparr>),
      (''within50'', \<lparr>maxNumber = 50, minNumber = 1\<rparr>),
      (''within100'', \<lparr>maxNumber = 100, minNumber = 1\<rparr>)]"

text \<open>
  The operation names are Chinese words; they are given by their UTF-8 bytes
  (\<open>name_addition\<close> is the source's name of addition, and so on).
\<close>

definition name_addition :: string where
  "name_addition = [CHR 0xE5, CHR 0x8A, CHR 0xA0, CHR 0xE6, CHR 0xB3, CHR 0x95]"

definition name_subtraction :: string where
  "name_subtraction = [CHR 0xE5, CHR 0x87, CHR 0x8F, CHR 0xE6, CHR 0xB3, CHR 0x95]"

definition name_mixed :: string where
  "name_mixed = [CHR 0xE5, CHR 0x8A, CHR 0xA0, CHR 0xE5, CHR 0x87, CHR 0x8F,
                 CHR 0xE6, CHR 0xB7, CHR 0xB7, CHR 0xE5, CHR 0x90, CHR 0x88]"

record operation_type =
  name :: string

definition OPERATION_TYPES :: "string \<rightharpoonup> operation_type" where
  "OPERATION_TYPES = map_of
     [(''addition'', \<lparr>name = name_addition\<rparr>),
      (''subtraction'', \<lparr>name = name_subtraction\<rparr>),
      (''mixed'', \<lparr>name = name_mixed\<rparr>)]"

record layout_type =
  columns :: nat
  problemsPerPage :: rat
  spacing_horizontal :: rat
  spacing_vertical :: rat

definition LAYOUT_TYPES :: "string \<rightharpoonup> layout_type" where
  "LAYOUT_TYPES = map_of
     [(''two-column'', \<lparr>columns = 2, problemsPerPage = 20,
                         spacing_horizontal = 50, spacing_vertical = 80\<rparr>),
      (''three-column'', \<lparr>columns = 3, problemsPerPage = 30,
                           spacing_horizontal = 40, spacing_vertical = 70\<rparr>)]"

record background_style =
  bg_type :: string

definition BACKGROUND_STYLES :: "string \<rightharpoonup> background_style" where
  "BACKGROUND_STYLES = map_of
     [(''blank'', \<lparr>bg_type = ''blank''\<rparr>),
      (''lined'', \<lparr>bg_type = ''lined''\<rparr>),
      (''grid'', \<lparr>bg_type = ''grid''\<rparr>),
      (''dotted'', \<lparr>bg_type = ''dotted''\<rparr>),
      (''custom'', \<lparr>bg_type = ''custom''\<rparr>)]"

text \<open>\<open>VALIDATION_RULES.problemCount\<close>.\<close>

definition problemCount_min :: rat where
  "problemCount_min = 1"

definition problemCount_max :: rat where
  "problemCount_max = 50"

section \<open>MathProblem (models/MathProblem.js)\<close>

text \<open>
  An id is either the one passed to the constructor or the one \<open>generateId\<close> builds from
  a random draw.
\<close>

datatype problem_id = GivenId string | GeneratedId rat

record MathProblem =
  operand1 :: rat
  operand2 :: rat
  operator :: string
  result :: rat
  ident :: problem_id

definition generateId :: "rng \<Rightarrow> 'a runtime_scheme \<Rightarrow> problem_id \<times> 'a runtime_scheme" where
  "generateId rnd s = (let (r, s1) = random rnd s in (GeneratedId r, s1))"

definition MathProblem_validate :: "MathProblem \<Rightarrow> error + unit" where
  "MathProblem_validate p =
     (if \<not> isInteger (operand1 p) \<or> operand1 p < 0 then Inl Operand1Invalid
      else if \<not> isInteger (operand2 p) \<or> operand2 p < 0 then Inl Operand2Invalid
      else if operator p \<noteq> ''+'' \<and> operator p \<noteq> ''-'' then Inl OperatorInvalid
      else
        let expectedResult =
              (if operator p = ''+'' then operand1 p + operand2 p
               else operand1 p - operand2 p)
        in if result p \<noteq> expectedResult then Inl ResultIncorrect
           else if operator p = ''-'' \<and> result p < 0 then Inl NegativeSubtractionResult
           else Inr ())"

text \<open>
  The constructor stores its arguments, takes the given id or generates one, and
  validates; an exception of \<open>validate\<close> leaves no object behind.
\<close>

definition MathProblem_new ::
  "rng \<Rightarrow> rat \<Rightarrow> rat \<Rightarrow> string \<Rightarrow> rat \<Rightarrow> string option \<Rightarrow> 'a runtime_scheme
     \<Rightarrow> (error + MathProblem) \<times> 'a runtime_scheme" where
  "MathProblem_new rnd a b opr r given s =
     (let (i, s1) = (case given of
                       Some g \<Rightarrow> if g \<noteq> [] then (GivenId g, s) else generateId rnd s
                     | None \<Rightarrow> generateId rnd s);
          p = \<lparr>operand1 = a, operand2 = b, operator = opr, result = r, ident = i\<rparr>
      in case MathProblem_validate p of
           Inl e \<Rightarrow> (Inl e, s1)
         | Inr u \<Rightarrow> (Inr p, s1))"

text \<open>
  \<open>fitsInDifficulty\<close>: an unknown level gives \<open>false\<close>; a name inherited from
  \<open>Object.prototype\<close> has no \<open>minNumber\<close> and \<open>maxNumber\<close>, and every comparison with
  \<open>undefined\<close> is false.
\<close>

definition fitsInDifficulty :: "MathProblem \<Rightarrow> string \<Rightarrow> bool" where
  "fitsInDifficulty p difficultyLevel =
     (case get_prop DIFFICULTY_LEVELS difficultyLevel of
        Absent \<Rightarrow> False
      | Inherited \<Rightarrow> False
      | Own d \<Rightarrow>
          operand1 p \<ge> minNumber d \<and> operand1 p \<le> maxNumber d \<and>
          operand2 p \<ge> minNumber d \<and> operand2 p \<le> maxNumber d \<and>
          result p \<ge> 0)"

section \<open>WorksheetConfig (models/WorksheetConfig.js)\<close>

record WorksheetConfig =
  difficulty :: string
  operationType :: string
  layout :: string
  backgroundStyle :: string
  paperFormat :: string
  customBackgroundUrl :: "string option"
  problemCount :: jsnum
  showAnswers :: bool
  title :: string

text \<open>The \<open>options\<close> object of the constructor: every property may be missing.\<close>

record options =
  opt_difficulty :: "string option"
  opt_operationType :: "string option"
  opt_layout :: "string option"
  opt_backgroundStyle :: "string option"
  opt_paperFormat :: "string option"
  opt_customBackgroundUrl :: "string option"
  opt_problemCount :: jsnum
  opt_showAnswers :: "bool option"
  opt_title :: "string option"

definition no_options :: options where
  "no_options = \<lparr>opt_difficulty = None, opt_operationType = None, opt_layout = None,
     opt_backgroundStyle = None, opt_paperFormat = None, opt_customBackgroundUrl = None,
     opt_problemCount = Undefined, opt_showAnswers = None, opt_title = None\<rparr>"

text \<open>
  \<open>getDefaultProblemCount\<close>: \<open>layoutConfig ? layoutConfig.problemsPerPage : 20\<close>. An
  inherited member is truthy and has no \<open>problemsPerPage\<close>.
\<close>

definition getDefaultProblemCount :: "string \<Rightarrow> jsnum" where
  "getDefaultProblemCount lay =
     (case get_prop LAYOUT_TYPES lay of
        Own l \<Rightarrow> Num (problemsPerPage l)
      | Inherited \<Rightarrow> Undefined
      | Absent \<Rightarrow> Num 20)"

definition WorksheetConfig_validate :: "WorksheetConfig \<Rightarrow> error + unit" where
  "WorksheetConfig_validate c =
     (if \<not> truthy_lookup (get_prop DIFFICULTY_LEVELS (difficulty c)) then Inl InvalidDifficulty
      else if \<not> truthy_lookup (get_prop OPERATION_TYPES (operationType c))
        then Inl InvalidOperationType
      else if \<not> truthy_lookup (get_prop LAYOUT_TYPES (layout c)) then Inl InvalidLayout
      else if \<not> truthy_lookup (get_prop BACKGROUND_STYLES (backgroundStyle c))
        then Inl InvalidBackgroundStyle
      else if \<not> numIsInteger (problemCount c) \<or>
              (case problemCount c of
                 Undefined \<Rightarrow> False
               | Num q \<Rightarrow> q < problemCount_min \<or> q > problemCount_max)
        then Inl ProblemCountOutOfRange
      else if backgroundStyle c = ''custom'' \<and> \<not> truthy_str (customBackgroundUrl c)
        then Inl CustomBackgroundUrlRequired
      else Inr ())"

definition WorksheetConfig_new :: "options \<Rightarrow> error + WorksheetConfig" where
  "WorksheetConfig_new opts =
     (let lay = str_or (opt_layout opts) ''two-column'';
          c = \<lparr>difficulty = str_or (opt_difficulty opts) ''within20'',
               operationType = str_or (opt_operationType opts) ''addition'',
               layout = lay,
               backgroundStyle = str_or (opt_backgroundStyle opts) ''blank'',
               paperFormat = str_or (opt_paperFormat opts) ''a4'',
               customBackgroundUrl =
                 (if truthy_str (opt_customBackgroundUrl opts)
                  then opt_customBackgroundUrl opts else None),
               problemCount =
                 (if truthy_num (opt_problemCount opts) then opt_problemCount opts
                  else getDefaultProblemCount lay),
               showAnswers = bool_or (opt_showAnswers opts) False,
               title = str_or (opt_title opts) ''''\<rparr>
      in case WorksheetConfig_validate c of
           Inl e \<Rightarrow> Inl e
         | Inr u \<Rightarrow> Inr c)"

text \<open>
  The \<open>updates\<close> object of \<open>update\<close>: \<open>None\<close> is a key that is not there. Keys that are
  no own property of a configuration are skipped by the \<open>hasOwnProperty\<close> test and are
  not modelled.
\<close>

record updates =
  upd_difficulty :: "string option"
  upd_operationType :: "string option"
  upd_layout :: "string option"
  upd_backgroundStyle :: "string option"
  upd_paperFormat :: "string option"
  upd_customBackgroundUrl :: "string option option"
  upd_problemCount :: "jsnum option"
  upd_showAnswers :: "bool option"
  upd_title :: "string option"

definition no_updates :: updates where
  "no_updates = \<lparr>upd_difficulty = None, upd_operationType = None, upd_layout = None,
     upd_backgroundStyle = None, upd_paperFormat = None, upd_customBackgroundUrl = None,
     upd_problemCount = None, upd_showAnswers = None, upd_title = None\<rparr>"

definition assign :: "'a option \<Rightarrow> 'a \<Rightarrow> 'a" where
  "assign v old = (case v of None \<Rightarrow> old | Some x \<Rightarrow> x)"

text \<open>The \<open>forEach\<close> of \<open>update\<close>: every key of \<open>updates\<close> overwrites its field.\<close>

definition apply_updates :: "WorksheetConfig \<Rightarrow> updates \<Rightarrow> WorksheetConfig" where
  "apply_updates c u =
     \<lparr>difficulty = assign (upd_difficulty u) (difficulty c),
      operationType = assign (upd_operationType u) (operationType c),
      layout = assign (upd_layout u) (layout c),
      backgroundStyle = assign (upd_backgroundStyle u) (backgroundStyle c),
      paperFormat = assign (upd_paperFormat u) (paperFormat c),
      customBackgroundUrl = assign (upd_customBackgroundUrl u) (customBackgroundUrl c),
      problemCount = assign (upd_problemCount u) (problemCount c),
      showAnswers = assign (upd_showAnswers u) (showAnswers c),
      title = assign (upd_title u) (title c)\<rparr>"

text \<open>
  \<open>update\<close> changes the object it is called on, so it returns the object as it is
  left behind together with the outcome: \<open>Inr ()\<close> when \<open>this\<close> is returned, \<open>Inl e\<close>
  when the validation threw.
\<close>

definition update :: "WorksheetConfig \<Rightarrow> updates \<Rightarrow> WorksheetConfig \<times> (error + unit)" where
  "update c u =
     (let c1 = apply_updates c u;
          c2 = (if truthy_str (upd_layout u) \<and>
                   \<not> (case upd_problemCount u of None \<Rightarrow> False | Some v \<Rightarrow> truthy_num v)
                then c1\<lparr>problemCount := getDefaultProblemCount (layout c1)\<rparr>
                else c1)
      in (c2, WorksheetConfig_validate c2))"

text \<open>\<open>clone\<close> constructs a configuration from the fields of this one.\<close>

definition clone :: "WorksheetConfig \<Rightarrow> error + WorksheetConfig" where
  "clone c =
     WorksheetConfig_new
       \<lparr>opt_difficulty = Some (difficulty c),
        opt_operationType = Some (operationType c),
        opt_layout = Some (layout c),
        opt_backgroundStyle = Some (backgroundStyle c),
        opt_paperFormat = Some (paperFormat c),
        opt_customBackgroundUrl = customBackgroundUrl c,
        opt_problemCount = problemCount c,
        opt_showAnswers = Some (showAnswers c),
        opt_title = Some (title c)\<rparr>"

section \<open>ProblemGenerator (core/ProblemGenerator.js)\<close>

text \<open>
  The generator's fields, on top of the runtime: the set of signatures generated in this
  run and the map from a number to how often an accepted problem used it.
\<close>

record generator = runtime +
  generatedProblems :: "string set"
  numberUsageTracker :: "rat \<rightharpoonup> nat"

definition maxRetries :: nat where
  "maxRetries = 100"

definition ProblemGenerator_new :: "runtime \<Rightarrow> generator" where
  "ProblemGenerator_new r =
     \<lparr>draws = draws r, console = console r,
      generatedProblems = {}, numberUsageTracker = Map.empty\<rparr>"

definition resetDistributionTracking :: "generator \<Rightarrow> generator" where
  "resetDistributionTracking s = s\<lparr>numberUsageTracker := Map.empty\<rparr>"

definition getNumberUsage :: "rat \<Rightarrow> generator \<Rightarrow> nat" where
  "getNumberUsage num s = (case numberUsageTracker s num of None \<Rightarrow> 0 | Some c \<Rightarrow> c)"

definition trackNumberUsage :: "rat \<Rightarrow> generator \<Rightarrow> generator" where
  "trackNumberUsage num s =
     s\<lparr>numberUsageTracker := (numberUsageTracker s)(num \<mapsto> getNumberUsage num s + 1)\<rparr>"

text \<open>The numbers \<open>min, min + 1, ...\<close> up to \<open>max\<close>, as the \<open>for\<close> loop visits them.\<close>

definition numbers_between :: "rat \<Rightarrow> rat \<Rightarrow> rat list" where
  "numbers_between lo hi = map (\<lambda>k. lo + of_nat k) [0 ..< nat (\<lfloor>hi - lo\<rfloor> + 1)]"

fun minimum :: "nat list \<Rightarrow> nat" where
  "minimum [] = 0"
| "minimum (x # xs) = foldl min x xs"

text \<open>
  The candidates of the usage-balanced sampler: the numbers of the range whose usage is
  at most the least usage plus one.
\<close>

definition balanced_candidates :: "rat \<Rightarrow> rat \<Rightarrow> generator \<Rightarrow> rat list" where
  "balanced_candidates lo hi s =
     (let numbers = numbers_between lo hi;
          minUsage = minimum (map (\<lambda>n. getNumberUsage n s) numbers)
      in filter (\<lambda>n. getNumberUsage n s \<le> minUsage + 1) numbers)"

text \<open>
  \<open>randomIntUniform\<close>. With an empty range there is no candidate and reading
  \<open>selected.value\<close> throws.
\<close>

definition randomIntUniform ::
  "rng \<Rightarrow> rat \<Rightarrow> rat \<Rightarrow> generator \<Rightarrow> (error + rat) \<times> generator" where
  "randomIntUniform rnd lo hi s =
     (let range = hi - lo + 1 in
      if range \<le> 20 then
        (let candidates = balanced_candidates lo hi s;
             (r, s1) = random rnd s;
             k = nat \<lfloor>r * of_nat (length candidates)\<rfloor>
         in if k < length candidates then (Inr (candidates ! k), s1) else (Inl TypeError, s1))
      else
        (let (r, s1) = random rnd s;
             candidate = of_int \<lfloor>r * range\<rfloor> + lo
         in if getNumberUsage candidate s1 > 2 then
              (let (r2, s2) = random rnd s1 in
               if r2 < 3 / 10 then
                 (let (r3, s3) = random rnd s2 in (Inr (of_int \<lfloor>r3 * range\<rfloor> + lo), s3))
               else (Inr candidate, s2))
            else (Inr candidate, s1)))"

definition randomInt ::
  "rng \<Rightarrow> rat \<Rightarrow> rat \<Rightarrow> bool \<Rightarrow> generator \<Rightarrow> (error + rat) \<times> generator" where
  "randomInt rnd lo hi useUniformDistribution s =
     (if useUniformDistribution then randomIntUniform rnd lo hi s
      else (let (r, s1) = random rnd s in (Inr (of_int \<lfloor>r * (hi - lo + 1)\<rfloor> + lo), s1)))"

text \<open>
  The second half of \<open>generateSingleProblem\<close> and of \<open>generateSingleProblemOptimized\<close>,
  which is the same text in both: choose the operator from the operation's name, swap the
  operands of a subtraction that would be negative, compute the result and construct the
  problem.
\<close>

definition make_problem ::
  "rng \<Rightarrow> rat \<Rightarrow> rat \<Rightarrow> string \<Rightarrow> generator \<Rightarrow> (error + MathProblem) \<times> generator" where
  "make_problem rnd a b opr s =
     MathProblem_new rnd a b opr (if opr = ''+'' then a + b else a - b) None s"

definition finish_problem ::
  "rng \<Rightarrow> operation_type lookup \<Rightarrow> rat \<Rightarrow> rat \<Rightarrow> generator
     \<Rightarrow> (error + MathProblem) \<times> generator" where
  "finish_problem rnd operationConfig a b s =
     (case operationConfig of
        Absent \<Rightarrow> (Inl TypeError, s)
      | Inherited \<Rightarrow> (Inl UnsupportedOperationType, s)
      | Own oc \<Rightarrow>
          if name oc = name_addition then make_problem rnd a b ''+'' s
          else if name oc = name_subtraction then
            (if a < b then make_problem rnd b a ''-'' s else make_problem rnd a b ''-'' s)
          else if name oc = name_mixed then
            (let (r, s1) = random rnd s;
                 opr = (if r < 1 / 2 then ''+'' else ''-'')
             in if opr = ''-'' \<and> a < b then make_problem rnd b a opr s1
                else make_problem rnd a b opr s1)
          else (Inl UnsupportedOperationType, s))"

text \<open>
  The same half when the difficulty is an inherited member of \<open>Object.prototype\<close>: its
  \<open>minNumber\<close> and \<open>maxNumber\<close> are \<open>undefined\<close>, both operands are \<open>NaN\<close>, no
  comparison holds, and the constructor (after taking an id) rejects the first operand.
\<close>

definition finish_nan ::
  "rng \<Rightarrow> operation_type lookup \<Rightarrow> generator \<Rightarrow> (error + MathProblem) \<times> generator" where
  "finish_nan rnd operationConfig s =
     (case operationConfig of
        Absent \<Rightarrow> (Inl TypeError, s)
      | Inherited \<Rightarrow> (Inl UnsupportedOperationType, s)
      | Own oc \<Rightarrow>
          if name oc = name_addition \<or> name oc = name_subtraction then
            (let (i, s1) = generateId rnd s in (Inl Operand1Invalid, s1))
          else if name oc = name_mixed then
            (let (r, s1) = random rnd s; (i, s2) = generateId rnd s1
             in (Inl Operand1Invalid, s2))
          else (Inl UnsupportedOperationType, s))"

definition draw_operands ::
  "rng \<Rightarrow> bool \<Rightarrow> difficulty_level lookup \<Rightarrow> operation_type lookup \<Rightarrow> generator
     \<Rightarrow> (error + MathProblem) \<times> generator" where
  "draw_operands rnd useUniformDistribution difficultyConfig operationConfig s =
     (case difficultyConfig of
        Absent \<Rightarrow> (Inl TypeError, s)
      | Inherited \<Rightarrow>
          (let (r1, s1) = random rnd s; (r2, s2) = random rnd s1
           in finish_nan rnd operationConfig s2)
      | Own d \<Rightarrow>
          (case randomInt rnd (minNumber d) (maxNumber d) useUniformDistribution s of
             (Inl e, s1) \<Rightarrow> (Inl e, s1)
           | (Inr a, s1) \<Rightarrow>
               (case randomInt rnd (minNumber d) (maxNumber d) useUniformDistribution s1 of
                  (Inl e, s2) \<Rightarrow> (Inl e, s2)
                | (Inr b, s2) \<Rightarrow> finish_problem rnd operationConfig a b s2)))"

text \<open>
  \<open>generateSingleProblem\<close> draws with \<open>randomInt(min, max)\<close>, whose third parameter
  defaults to \<open>false\<close>; \<open>generateSingleProblemOptimized\<close> draws with
  \<open>randomIntUniform(min, max)\<close>.
\<close>

definition generateSingleProblem ::
  "rng \<Rightarrow> difficulty_level lookup \<Rightarrow> operation_type lookup \<Rightarrow> generator
     \<Rightarrow> (error + MathProblem) \<times> generator" where
  "generateSingleProblem rnd difficultyConfig operationConfig s =
     draw_operands rnd False difficultyConfig operationConfig s"

definition generateSingleProblemOptimized ::
  "rng \<Rightarrow> difficulty_level lookup \<Rightarrow> operation_type lookup \<Rightarrow> generator
     \<Rightarrow> (error + MathProblem) \<times> generator" where
  "generateSingleProblemOptimized rnd difficultyConfig operationConfig s =
     draw_operands rnd True difficultyConfig operationConfig s"

text \<open>
  \<open>validateProblem\<close>: an exception inside its \<open>try\<close> is logged and gives \<open>false\<close>.
  An inherited operation has a \<open>name\<close> that is none of the three operation names.
\<close>

definition validateProblem ::
  "MathProblem \<Rightarrow> WorksheetConfig \<Rightarrow> generator \<Rightarrow> bool \<times> generator" where
  "validateProblem p config s =
     (case MathProblem_validate p of
        Inl e \<Rightarrow> (False, warn ''Problem validation failed:'' s)
      | Inr u \<Rightarrow>
          if \<not> fitsInDifficulty p (difficulty config) then (False, s)
          else
            (case get_prop OPERATION_TYPES (operationType config) of
               Absent \<Rightarrow> (False, warn ''Problem validation failed:'' s)
             | Inherited \<Rightarrow> if result p < 0 then (False, s) else (True, s)
             | Own oc \<Rightarrow>
                 if name oc = name_addition \<and> operator p \<noteq> ''+'' then (False, s)
                 else if name oc = name_subtraction \<and> operator p \<noteq> ''-'' then (False, s)
                 else if result p < 0 then (False, s)
                 else (True, s)))"

text \<open>
  The signature is the text \<open>operand1 operator operand2\<close>. The generator takes it of
  validated candidates only, whose operands are integers; they print in decimal.
\<close>

definition getProblemSignature :: "MathProblem \<Rightarrow> string" where
  "getProblemSignature p =
     number_to_string \<lfloor>operand1 p\<rfloor> @ operator p @ number_to_string \<lfloor>operand2 p\<rfloor>"

definition isDuplicate :: "MathProblem \<Rightarrow> generator \<Rightarrow> bool" where
  "isDuplicate p s = (getProblemSignature p \<in> generatedProblems s)"

text \<open>What the loops do with a candidate they accept.\<close>

definition accept :: "MathProblem \<Rightarrow> generator \<Rightarrow> generator" where
  "accept candidate s =
     trackNumberUsage (operand2 candidate)
       (trackNumberUsage (operand1 candidate)
          (s\<lparr>generatedProblems := insert (getProblemSignature candidate) (generatedProblems s)\<rparr>))"

text \<open>
  The inner loop \<open>while (!problem && attempts < this.maxRetries)\<close>, the same in
  \<open>generateProblems\<close>, \<open>generateProblemsWithOptimizedDistribution\<close> and
  \<open>generateProblemsWithRatioControl\<close> up to the function \<open>single\<close> that makes a
  candidate. It returns the loop's variables \<open>problem\<close> and \<open>attempts\<close>.
\<close>

function unique_loop ::
  "(generator \<Rightarrow> (error + MathProblem) \<times> generator) \<Rightarrow> WorksheetConfig \<Rightarrow> nat \<Rightarrow> generator
     \<Rightarrow> (error + MathProblem option \<times> nat) \<times> generator" where
  "unique_loop single config attempts s =
     (if attempts < maxRetries then
        (case single s of
           (Inl e, s1) \<Rightarrow> (Inl e, s1)
         | (Inr candidate, s1) \<Rightarrow>
             (case validateProblem candidate config s1 of
                (ok, s2) \<Rightarrow>
                  if ok \<and> \<not> isDuplicate candidate s2
                  then (Inr (Some candidate, attempts + 1), accept candidate s2)
                  else unique_loop single config (attempts + 1) s2))
      else (Inr (None, attempts), s))"
  by pat_completeness auto
termination
  by (relation "measure (\<lambda>(single, config, attempts, s). maxRetries - attempts)") auto

declare unique_loop.simps [simp del]

definition duplicate_warning :: "nat \<Rightarrow> string" where
  "duplicate_warning i =
     ''Could not generate unique problem '' @ show_nat (i + 1) @ '', using duplicate''"

text \<open>
  One turn of the outer \<open>for\<close> loop of \<open>generateProblems\<close>: the problem of slot \<open>i\<close>.
\<close>

definition fill_slot ::
  "(generator \<Rightarrow> (error + MathProblem) \<times> generator) \<Rightarrow> WorksheetConfig \<Rightarrow> nat \<Rightarrow> generator
     \<Rightarrow> (error + MathProblem) \<times> generator" where
  "fill_slot single config i s =
     (case unique_loop single config 0 s of
        (Inl e, s1) \<Rightarrow> (Inl e, s1)
      | (Inr (Some problem, attempts), s1) \<Rightarrow> (Inr problem, s1)
      | (Inr (None, attempts), s1) \<Rightarrow>
          (case single s1 of
             (Inl e, s2) \<Rightarrow> (Inl e, s2)
           | (Inr problem, s2) \<Rightarrow> (Inr problem, warn (duplicate_warning i) s2)))"

function slots_loop ::
  "(generator \<Rightarrow> (error + MathProblem) \<times> generator) \<Rightarrow> WorksheetConfig \<Rightarrow> rat \<Rightarrow> nat
     \<Rightarrow> MathProblem list \<Rightarrow> generator \<Rightarrow> (error + MathProblem list) \<times> generator" where
  "slots_loop single config wanted i problems s =
     (if of_nat i < wanted then
        (case fill_slot single config i s of
           (Inl e, s1) \<Rightarrow> (Inl e, s1)
         | (Inr problem, s1) \<Rightarrow>
             slots_loop single config wanted (i + 1) (problems @ [problem]) s1)
      else (Inr problems, s))"
  by pat_completeness auto
termination
proof (relation "measure (\<lambda>(single, config, wanted, i, problems, s).
                            nat \<lceil>wanted\<rceil> - i)")
  show "wf (measure (\<lambda>(single, config, wanted, i, problems, s).
                       nat \<lceil>wanted :: rat\<rceil> - i))"
    by simp
next
  fix single :: "generator \<Rightarrow> (error + MathProblem) \<times> generator"
  fix config :: WorksheetConfig and wanted :: rat and i :: nat
  fix problems :: "MathProblem list" and s s1 :: generator and x problem
  assume "of_nat i < wanted"
  then have "int i < \<lceil>wanted\<rceil>"
    by (simp add: less_ceiling_iff)
  then have "i < nat \<lceil>wanted\<rceil>"
    by simp
  then show "((single, config, wanted, i + 1, problems @ [problem], s1),
              (single, config, wanted, i, problems, s))
             \<in> measure (\<lambda>(single, config, wanted, i, problems, s).
                          nat \<lceil>wanted\<rceil> - i)"
    by simp
qed

declare slots_loop.simps [simp del]

text \<open>\<open>count || config.problemCount || 20\<close>.\<close>

definition effective_count :: "jsnum \<Rightarrow> WorksheetConfig \<Rightarrow> rat" where
  "effective_count count config = num_or count (num_or (problemCount config) 20)"

definition clear_tracking :: "generator \<Rightarrow> generator" where
  "clear_tracking s = resetDistributionTracking (s\<lparr>generatedProblems := {}\<rparr>)"

definition generateProblems ::
  "rng \<Rightarrow> WorksheetConfig option \<Rightarrow> jsnum \<Rightarrow> generator
     \<Rightarrow> (error + MathProblem list) \<times> generator" where
  "generateProblems rnd config count s =
     (case config of
        None \<Rightarrow> (Inl ConfigurationRequired, s)
      | Some c \<Rightarrow>
          (let wanted = effective_count count c;
               difficultyConfig = get_prop DIFFICULTY_LEVELS (difficulty c);
               operationConfig = get_prop OPERATION_TYPES (operationType c)
           in slots_loop (generateSingleProblem rnd difficultyConfig operationConfig)
                c wanted 0 [] (clear_tracking s)))"

definition generateProblemsWithOptimizedDistribution ::
  "rng \<Rightarrow> WorksheetConfig option \<Rightarrow> jsnum \<Rightarrow> generator
     \<Rightarrow> (error + MathProblem list) \<times> generator" where
  "generateProblemsWithOptimizedDistribution rnd config count s =
     (case config of
        None \<Rightarrow> (Inl ConfigurationRequired, s)
      | Some c \<Rightarrow>
          (let wanted = effective_count count c;
               difficultyConfig = get_prop DIFFICULTY_LEVELS (difficulty c);
               operationConfig = get_prop OPERATION_TYPES (operationType c)
           in slots_loop (generateSingleProblemOptimized rnd difficultyConfig operationConfig)
                c wanted 0 [] (clear_tracking s)))"

text \<open>\<open>shuffleArray\<close> (Fisher-Yates), \<open>i\<close> running from the last index down to \<open>1\<close>.\<close>

fun shuffle_loop :: "rng \<Rightarrow> nat \<Rightarrow> 'a list \<Rightarrow> 'b runtime_scheme \<Rightarrow> 'a list \<times> 'b runtime_scheme" where
  "shuffle_loop rnd 0 shuffled s = (shuffled, s)"
| "shuffle_loop rnd (Suc k) shuffled s =
     (let i = Suc k;
          (r, s1) = random rnd s;
          j = nat \<lfloor>r * of_nat (i + 1)\<rfloor>
      in shuffle_loop rnd k (shuffled[i := shuffled ! j, j := shuffled ! i]) s1)"

definition shuffleArray :: "rng \<Rightarrow> 'a list \<Rightarrow> 'b runtime_scheme \<Rightarrow> 'a list \<times> 'b runtime_scheme" where
  "shuffleArray rnd array s = shuffle_loop rnd (length array - 1) array s"

text \<open>\<open>Math.round\<close>.\<close>

definition js_round :: "rat \<Rightarrow> rat" where
  "js_round q = of_int \<lfloor>q + 1 / 2\<rfloor>"

text \<open>
  \<open>generateBalancedProblems\<close>: in mixed mode the requested number is divided by the
  addition ratio, each share is generated by \<open>generateProblems\<close> on a clone of the
  configuration with one operation, and the two arrays are shuffled together.
\<close>

definition generateBalancedProblems ::
  "rng \<Rightarrow> WorksheetConfig option \<Rightarrow> jsnum \<Rightarrow> rat \<Rightarrow> generator
     \<Rightarrow> (error + MathProblem list) \<times> generator" where
  "generateBalancedProblems rnd config count additionRatio s =
     (case config of
        None \<Rightarrow> (Inl TypeError, s)
      | Some c \<Rightarrow>
          (let wanted = effective_count count c
           in if operationType c \<noteq> ''mixed'' then generateProblems rnd config (Num wanted) s
              else if additionRatio < 0 \<or> additionRatio > 1
                then (Inl AdditionRatioOutOfRange, s)
              else
                (let additionCount = js_round (wanted * additionRatio);
                     subtractionCount = wanted - additionCount
                 in case clone c of
                      Inl e \<Rightarrow> (Inl e, s)
                    | Inr additionConfig \<Rightarrow>
                        (case generateProblems rnd
                                (Some (additionConfig\<lparr>operationType := ''addition''\<rparr>))
                                (Num additionCount) s of
                           (Inl e, s1) \<Rightarrow> (Inl e, s1)
                         | (Inr additionProblems, s1) \<Rightarrow>
                             (case clone c of
                                Inl e \<Rightarrow> (Inl e, s1)
                              | Inr subtractionConfig \<Rightarrow>
                                  (case generateProblems rnd
                                          (Some (subtractionConfig
                                                   \<lparr>operationType := ''subtraction''\<rparr>))
                                          (Num subtractionCount) s1 of
                                     (Inl e, s2) \<Rightarrow> (Inl e, s2)
                                   | (Inr subtractionProblems, s2) \<Rightarrow>
                                       (let (shuffled, s3) =
                                              shuffleArray rnd
                                                (additionProblems @ subtractionProblems) s2
                                        in (Inr shuffled, s3))))))))"









section \<open>LayoutEngine (core/LayoutEngine.js)\<close>

text \<open>
  The globals the engine reads when they are defined, and the values constants.js gives
  them. Only the fields the engine reads are kept.
\<close>

record margins =
  m_top :: rat
  m_right :: rat
  m_bottom :: rat
  m_left :: rat

record canvas_config =
  canvas_width :: rat
  canvas_height :: rat
  canvas_margins :: margins

record font_config =
  problem_size :: rat
  lineHeight :: rat

record globals =
  global_CANVAS_CONFIG :: "canvas_config option"
  global_FONT_CONFIG :: "font_config option"

definition CANVAS_CONFIG :: canvas_config where
  "CANVAS_CONFIG =
     \<lparr>canvas_width = 2480, canvas_height = 3508,
      canvas_margins = \<lparr>m_top = 150, m_right = 150, m_bottom = 150, m_left = 150\<rparr>\<rparr>"

definition FONT_CONFIG :: font_config where
  "FONT_CONFIG = \<lparr>problem_size = 24, lineHeight = 12 / 10\<rparr>"

definition browser_globals :: globals where
  "browser_globals =
     \<lparr>global_CANVAS_CONFIG = Some CANVAS_CONFIG, global_FONT_CONFIG = Some FONT_CONFIG\<rparr>"

record layout_config =
  lc_columns :: nat
  lc_spacing_horizontal :: rat
  lc_spacing_vertical :: rat
  lc_problemsPerPage :: rat

record available_space =
  as_width :: rat
  as_height :: rat
  startX :: rat
  startY :: rat

record position =
  pos_x :: rat
  pos_y :: rat
  pos_width :: rat
  pos_height :: rat

record problem_position =
  pp_problem :: MathProblem
  pp_position :: position
  pp_row :: nat
  pp_column :: nat
  pp_index :: nat

record layout_result =
  lay_problems :: "problem_position list"
  pageSize_width :: rat
  pageSize_height :: rat
  lay_margins :: margins
  lay_layoutConfig :: layout_config
  lay_availableSpace :: available_space
  totalProblems :: nat
  meta_columns :: nat
  meta_rows :: nat

record engine =
  currentLayout :: "layout_result option"
  debugMode :: bool

definition LayoutEngine_new :: engine where
  "LayoutEngine_new = \<lparr>currentLayout = None, debugMode = False\<rparr>"

text \<open>
  \<open>getLayoutConfig\<close> reads \<open>baseConfig.columns\<close> and \<open>baseConfig.spacing.horizontal\<close>:
  the first throws when the layout is unknown, the second when it is an inherited
  member.
\<close>

definition getLayoutConfig :: "WorksheetConfig \<Rightarrow> error + layout_config" where
  "getLayoutConfig config =
     (case get_prop LAYOUT_TYPES (layout config) of
        Absent \<Rightarrow> Inl TypeError
      | Inherited \<Rightarrow> Inl TypeError
      | Own baseConfig \<Rightarrow>
          Inr \<lparr>lc_columns = columns baseConfig,
               lc_spacing_horizontal = spacing_horizontal baseConfig,
               lc_spacing_vertical = spacing_vertical baseConfig,
               lc_problemsPerPage = problemsPerPage baseConfig\<rparr>)"

definition getCanvasConfig :: "globals \<Rightarrow> canvas_config" where
  "getCanvasConfig g =
     (case global_CANVAS_CONFIG g of
        Some c \<Rightarrow> c
      | None \<Rightarrow>
          \<lparr>canvas_width = 2480, canvas_height = 3508,
           canvas_margins = \<lparr>m_top = 150, m_right = 150, m_bottom = 150, m_left = 150\<rparr>\<rparr>)"

definition getFontConfig :: "globals \<Rightarrow> font_config" where
  "getFontConfig g =
     (case global_FONT_CONFIG g of
        Some f \<Rightarrow> f
      | None \<Rightarrow> \<lparr>problem_size = 48, lineHeight = 12 / 10\<rparr>)"

definition calculateAvailableSpace :: "canvas_config \<Rightarrow> available_space" where
  "calculateAvailableSpace canvasConfig =
     (let m = canvas_margins canvasConfig
      in \<lparr>as_width = canvas_width canvasConfig - m_left m - m_right m,
          as_height = canvas_height canvasConfig - m_top m - m_bottom m,
          startX = m_left m,
          startY = m_top m\<rparr>)"

text \<open>\<open>calculateProblemDimensions\<close>, of which only the height is read.\<close>

definition problemDimensions_height :: "globals \<Rightarrow> rat" where
  "problemDimensions_height g =
     (let fontConfig = getFontConfig g
      in problem_size fontConfig * lineHeight fontConfig + 20)"

text \<open>\<open>Math.ceil(n / columns)\<close>.\<close>

definition rows_needed :: "nat \<Rightarrow> nat \<Rightarrow> nat" where
  "rows_needed n cols = nat \<lceil>(of_nat n :: rat) / of_nat cols\<rceil>"

definition calculateProblemPositions ::
  "globals \<Rightarrow> MathProblem list \<Rightarrow> layout_config \<Rightarrow> available_space \<Rightarrow> problem_position list" where
  "calculateProblemPositions g probs layoutConfig availableSpace =
     (let cols = lc_columns layoutConfig;
          totalHorizontalSpacing = (of_nat cols - 1) * lc_spacing_horizontal layoutConfig;
          columnWidth = (as_width availableSpace - totalHorizontalSpacing) / of_nat cols;
          totalRows = rows_needed (length probs) cols;
          totalVerticalSpacing = (of_nat totalRows - 1) * lc_spacing_vertical layoutConfig;
          availableVerticalSpace = as_height availableSpace - totalVerticalSpacing;
          rowHeight = max (problemDimensions_height g) (availableVerticalSpace / of_nat totalRows)
      in map (\<lambda>(i, p).
                \<lparr>pp_problem = p,
                 pp_position =
                   \<lparr>pos_x = startX availableSpace +
                             of_nat (i mod cols) * (columnWidth + lc_spacing_horizontal layoutConfig),
                    pos_y = startY availableSpace +
                             of_nat (i div cols) * (rowHeight + lc_spacing_vertical layoutConfig),
                    pos_width = columnWidth,
                    pos_height = rowHeight\<rparr>,
                 pp_row = i div cols,
                 pp_column = i mod cols,
                 pp_index = i\<rparr>)
             (enumerate 0 probs))"

definition move_down :: "rat \<Rightarrow> problem_position \<Rightarrow> problem_position" where
  "move_down d pp = pp\<lparr>pp_position := (pp_position pp)\<lparr>pos_y := pos_y (pp_position pp) + d\<rparr>\<rparr>"

definition optimizeVerticalSpacing ::
  "problem_position list \<Rightarrow> layout_result \<Rightarrow> problem_position list" where
  "optimizeVerticalSpacing pps lay =
     (if length pps = 0 then pps
      else
        (let cols = lc_columns (lay_layoutConfig lay);
             totalRows = rows_needed (length pps) cols
         in if totalRows \<le> 1 then pps
            else
              (let usedHeight =
                     foldl (\<lambda>m p. max m (pos_y (pp_position p) + pos_height (pp_position p)))
                       0 pps;
                   availableHeight = as_height (lay_availableSpace lay);
                   remainingSpace =
                     availableHeight - (usedHeight - startY (lay_availableSpace lay))
               in if remainingSpace > 0 then
                    (let extraSpacePerGap = remainingSpace / (of_nat totalRows - 1)
                     in map (\<lambda>(i, pp).
                               if i div cols > 0
                               then move_down (of_nat (i div cols) * extraSpacePerGap) pp
                               else pp)
                          (enumerate 0 pps))
                  else pps)))"

text \<open>\<open>optimizeHorizontalAlignment\<close> groups the problems by column and changes nothing.\<close>

definition optimizeHorizontalAlignment ::
  "problem_position list \<Rightarrow> layout_result \<Rightarrow> problem_position list" where
  "optimizeHorizontalAlignment pps lay = pps"

text \<open>
  The comparator of \<open>preventOverlaps\<close>, and \<open>sort\<close> as a stable insertion sort: on a
  consistent comparator every stable sort gives the same array.
\<close>

definition compare_positions :: "problem_position \<Rightarrow> problem_position \<Rightarrow> rat" where
  "compare_positions a b =
     (if \<bar>pos_y (pp_position a) - pos_y (pp_position b)\<bar> < 10
      then pos_x (pp_position a) - pos_x (pp_position b)
      else pos_y (pp_position a) - pos_y (pp_position b))"

fun insert_sorted :: "problem_position \<Rightarrow> problem_position list \<Rightarrow> problem_position list" where
  "insert_sorted a [] = [a]"
| "insert_sorted a (b # bs) =
     (if compare_positions a b < 0 then a # b # bs else b # insert_sorted a bs)"

definition sort_positions :: "problem_position list \<Rightarrow> problem_position list" where
  "sort_positions pps = foldl (\<lambda>acc a. insert_sorted a acc) [] pps"

text \<open>
  The sweep of \<open>preventOverlaps\<close>: \<open>previous\<close> is the element before, as the sweep left
  it.
\<close>

fun sweep :: "problem_position \<Rightarrow> problem_position list \<Rightarrow> problem_position list" where
  "sweep previous [] = []"
| "sweep previous (current # rest) =
     (let prevRight = pos_x (pp_position previous) + pos_width (pp_position previous);
          moved =
            (if \<bar>pos_y (pp_position current) - pos_y (pp_position previous)\<bar> < 10 \<and>
                pos_x (pp_position current) < prevRight + 10
             then current\<lparr>pp_position := (pp_position current)\<lparr>pos_x := prevRight + 20\<rparr>\<rparr>
             else current)
      in moved # sweep moved rest)"

definition preventOverlaps :: "problem_position list \<Rightarrow> problem_position list" where
  "preventOverlaps pps =
     (case sort_positions pps of
        [] \<Rightarrow> []
      | first # rest \<Rightarrow> first # sweep first rest)"

definition optimizeSpacing :: "layout_result \<Rightarrow> layout_result" where
  "optimizeSpacing lay =
     lay\<lparr>lay_problems :=
           preventOverlaps
             (optimizeHorizontalAlignment (optimizeVerticalSpacing (lay_problems lay) lay) lay)\<rparr>"

text \<open>
  \<open>validateProblemPosition\<close>: every modelled number is finite, so what is left of it is
  the test of the dimensions.
\<close>

definition validateProblemPosition :: "problem_position \<Rightarrow> bool" where
  "validateProblemPosition pp =
     (if pos_width (pp_position pp) \<le> 0 \<or> pos_height (pp_position pp) \<le> 0 then False
      else True)"

definition problemsOverlap :: "problem_position \<Rightarrow> problem_position \<Rightarrow> bool" where
  "problemsOverlap problem1 problem2 =
     (let p1 = pp_position problem1; p2 = pp_position problem2
      in \<not> (pos_x p1 + pos_width p1 \<le> pos_x p2 \<or>
             pos_x p2 + pos_width p2 \<le> pos_x p1 \<or>
             pos_y p1 + pos_height p1 \<le> pos_y p2 \<or>
             pos_y p2 + pos_height p2 \<le> pos_y p1))"

fun hasOverlaps :: "problem_position list \<Rightarrow> bool" where
  "hasOverlaps [] = False"
| "hasOverlaps (p # ps) = (list_ex (problemsOverlap p) ps \<or> hasOverlaps ps)"

definition problemsFitInBounds :: "problem_position list \<Rightarrow> layout_result \<Rightarrow> bool" where
  "problemsFitInBounds pps lay =
     list_all (\<lambda>pp.
        \<not> (pos_x (pp_position pp) < 0 \<or> pos_y (pp_position pp) < 0 \<or>
            pos_x (pp_position pp) + pos_width (pp_position pp) > pageSize_width lay \<or>
            pos_y (pp_position pp) + pos_height (pp_position pp) > pageSize_height lay)) pps"

definition validateLayout :: "layout_result \<Rightarrow> bool" where
  "validateLayout lay =
     (if \<not> list_all validateProblemPosition (lay_problems lay) then False
      else if hasOverlaps (lay_problems lay) then False
      else if \<not> problemsFitInBounds (lay_problems lay) lay then False
      else True)"

text \<open>
  \<open>calculateLayout\<close>. \<open>None\<close> is \<open>null\<close>. The engine remembers the layout it returns;
  its logging is not modelled.
\<close>

definition calculateLayout ::
  "globals \<Rightarrow> MathProblem list option \<Rightarrow> WorksheetConfig option \<Rightarrow> engine
     \<Rightarrow> (error + layout_result) \<times> engine" where
  "calculateLayout g probs config e =
     (case probs of
        None \<Rightarrow> (Inl NoProblemsProvided, e)
      | Some ps \<Rightarrow>
          if length ps = 0 then (Inl NoProblemsProvided, e)
          else
            (case config of
               None \<Rightarrow> (Inl LayoutConfigurationRequired, e)
             | Some c \<Rightarrow>
                 (case getLayoutConfig c of
                    Inl err \<Rightarrow> (Inl err, e)
                  | Inr layoutConfig \<Rightarrow>
                      (let canvasConfig = getCanvasConfig g;
                           availableSpace = calculateAvailableSpace canvasConfig;
                           problemPositions =
                             calculateProblemPositions g ps layoutConfig availableSpace;
                           lay = \<lparr>lay_problems = problemPositions,
                                  pageSize_width = canvas_width canvasConfig,
                                  pageSize_height = canvas_height canvasConfig,
                                  lay_margins = canvas_margins canvasConfig,
                                  lay_layoutConfig = layoutConfig,
                                  lay_availableSpace = availableSpace,
                                  totalProblems = length ps,
                                  meta_columns = lc_columns layoutConfig,
                                  meta_rows = rows_needed (length ps) (lc_columns layoutConfig)\<rparr>;
                           optimizedLayout = optimizeSpacing lay
                       in if \<not> validateLayout optimizedLayout
                          then (Inl GeneratedLayoutInvalid, e)
                          else (Inr optimizedLayout,
                                e\<lparr>currentLayout := Some optimizedLayout\<rparr>)))))"

section \<open>Vocabulary of the properties\<close>

text \<open>
  A valid configuration, as the data model describes it: the four names are entries of
  their tables, the problem count is an integer from 1 to 50, and a custom background
  comes with a non-empty URL.
\<close>

definition valid_config :: "WorksheetConfig \<Rightarrow> bool" where
  "valid_config c =
     (DIFFICULTY_LEVELS (difficulty c) \<noteq> None \<and>
      OPERATION_TYPES (operationType c) \<noteq> None \<and>
      LAYOUT_TYPES (layout c) \<noteq> None \<and>
      BACKGROUND_STYLES (backgroundStyle c) \<noteq> None \<and>
      (case problemCount c of
         Undefined \<Rightarrow> False
       | Num q \<Rightarrow> isInteger q \<and> 1 \<le> q \<and> q \<le> 50) \<and>
      (if backgroundStyle c = ''custom'' then truthy_str (customBackgroundUrl c) else True))"

text \<open>A problem whose operands lie in the range of a difficulty level.\<close>

definition operands_in_range :: "difficulty_level \<Rightarrow> MathProblem \<Rightarrow> bool" where
  "operands_in_range d p =
     (minNumber d \<le> operand1 p \<and> operand1 p \<le> maxNumber d \<and>
      minNumber d \<le> operand2 p \<and> operand2 p \<le> maxNumber d)"

text \<open>Concrete inputs: the configuration \<open>createDefault\<close> builds, and a fresh runtime.\<close>

definition default_config :: WorksheetConfig where
  "default_config =
     \<lparr>difficulty = ''within20'', operationType = ''addition'', layout = ''two-column'',
      backgroundStyle = ''blank'', paperFormat = ''a4'', customBackgroundUrl = None,
      problemCount = Num 20, showAnswers = False, title = ''''\<rparr>"


definition rnd_zero :: rng where
  "rnd_zero = (\<lambda>i. unit_of 0)"

text \<open>The second state differs from the first in the number of random draws only.\<close>

definition only_draws :: "generator \<Rightarrow> generator \<Rightarrow> bool" where
  "only_draws s s1 = (\<exists>n. s1 = s\<lparr>draws := n\<rparr>)"

text \<open>A new generator, a configuration of the smallest range, and a random sequence.\<close>

definition gen0 :: generator where
  "gen0 = ProblemGenerator_new \<lparr>draws = 0, console = []\<rparr>"





text \<open>
  Rectangles intersect when some point lies strictly inside both; this is the overlap
  \<open>problemsOverlap\<close> tests, for which rectangles that only touch do not overlap.
\<close>

definition inside :: "position \<Rightarrow> rat \<Rightarrow> rat \<Rightarrow> bool" where
  "inside r px py =
     (pos_x r < px \<and> px < pos_x r + pos_width r \<and> pos_y r < py \<and> py < pos_y r + pos_height r)"

definition rectangles_intersect :: "position \<Rightarrow> position \<Rightarrow> bool" where
  "rectangles_intersect a b = (\<exists>px py. inside a px py \<and> inside b px py)"

text \<open>The six problems of the engine's tests, and a configuration of mixed operations.\<close>

definition sample_problem :: "rat \<Rightarrow> rat \<Rightarrow> string \<Rightarrow> rat \<Rightarrow> MathProblem" where
  "sample_problem a b opr r =
     \<lparr>operand1 = a, operand2 = b, operator = opr, result = r, ident = GeneratedId 0\<rparr>"

definition sampleProblems :: "MathProblem list" where
  "sampleProblems =
     [sample_problem 5 3 ''+'' 8, sample_problem 7 2 ''+'' 9, sample_problem 10 4 ''-'' 6,
      sample_problem 8 3 ''+'' 11, sample_problem 9 5 ''-'' 4, sample_problem 6 4 ''+'' 10]"

definition mixed_config :: WorksheetConfig where
  "mixed_config = default_config\<lparr>operationType := ''mixed''\<rparr>"

section \<open>Properties of MathProblem\<close>

lemma isInteger_iff: "isInteger q \<longleftrightarrow> q \<in> \<int>"
  unfolding isInteger_def by (metis Ints_of_int of_int_floor)

lemma MathProblem_validate_ok_iff:
  "MathProblem_validate p = Inr () \<longleftrightarrow>
     operand1 p \<in> \<int> \<and> 0 \<le> operand1 p \<and> operand2 p \<in> \<int> \<and> 0 \<le> operand2 p \<and>
     (operator p = ''+'' \<and> result p = operand1 p + operand2 p \<or>
      operator p = ''-'' \<and> result p = operand1 p - operand2 p \<and> operand2 p \<le> operand1 p)"
  unfolding MathProblem_validate_def isInteger_iff Let_def by auto




section \<open>Properties of WorksheetConfig\<close>

lemmas table_defs =
  DIFFICULTY_LEVELS_def OPERATION_TYPES_def LAYOUT_TYPES_def BACKGROUND_STYLES_def
  get_prop_def truthy_lookup_def object_prototype_names_def

lemmas config_defs =
  WorksheetConfig_new_def WorksheetConfig_validate_def getDefaultProblemCount_def
  str_or_def bool_or_def truthy_str_def truthy_num_def numIsInteger_def isInteger_def
  problemCount_min_def problemCount_max_def no_options_def

text \<open>
  Claim C6. A problem count that is not an integer from 1 to 50 is to fail the
  constructor and never to be replaced by a default. The constructor reads
  \<open>options.problemCount || this.getDefaultProblemCount()\<close>, so the count \<open>0\<close> never
  reaches the validation: the configuration is built with the layout's default count.
\<close>

theorem zero_problemCount_replaced_by_default:
  "WorksheetConfig_new (no_options\<lparr>opt_problemCount := Num 0\<rparr>) = Inr default_config \<and>
   problemCount default_config = Num 20 \<and>
   WorksheetConfig_new
       (no_options\<lparr>opt_layout := Some ''three-column'', opt_problemCount := Num 0\<rparr>) =
     Inr (default_config\<lparr>layout := ''three-column'', problemCount := Num 30\<rparr>)"
  by (simp add: config_defs table_defs default_config_def)

text \<open>What the validation does establish, for the constructor and for \<open>update\<close>.\<close>

lemma validate_ok_fields:
  assumes "WorksheetConfig_validate c = Inr ()"
  shows "truthy_lookup (get_prop DIFFICULTY_LEVELS (difficulty c))"
    and "truthy_lookup (get_prop OPERATION_TYPES (operationType c))"
    and "truthy_lookup (get_prop LAYOUT_TYPES (layout c))"
    and "truthy_lookup (get_prop BACKGROUND_STYLES (backgroundStyle c))"
    and "\<exists>q. problemCount c = Num q \<and> q \<in> \<int> \<and> 1 \<le> q \<and> q \<le> 50"
    and "backgroundStyle c = ''custom'' \<Longrightarrow> \<exists>u. customBackgroundUrl c = Some u \<and> u \<noteq> []"
  using assms
  unfolding WorksheetConfig_validate_def numIsInteger_def truthy_str_def
    problemCount_min_def problemCount_max_def
  by (auto split: if_splits jsnum.splits option.splits simp: isInteger_iff)

lemma truthy_lookup_cases:
  "truthy_lookup (get_prop tbl k) \<longleftrightarrow> tbl k \<noteq> None \<or> k \<in> set object_prototype_names"
  unfolding truthy_lookup_def get_prop_def by (auto split: option.splits)

lemma new_config_validated:
  assumes "WorksheetConfig_new opts = Inr c"
  shows "WorksheetConfig_validate c = Inr ()"
  using assms unfolding WorksheetConfig_new_def Let_def
  by (auto split: sum.splits)

lemma update_ok_validated:
  assumes "update c u = (c', Inr ())"
  shows "WorksheetConfig_validate c' = Inr ()"
  using assms unfolding update_def Let_def by auto

text \<open>
  Claim C7. Every configuration that the constructor or \<open>update\<close> returns is to have a
  difficulty, an operation type, a layout and a background style that are keys of their
  tables. The validation tests \<open>!TABLE[name]\<close>, which also lets through the names of the
  members every object inherits: the constructor returns a configuration whose
  difficulty is \<open>constructor\<close>, and \<open>update\<close> one whose operation type is \<open>toString\<close>;
  neither is a key of its table. Generating from the first configuration then fails
  in the constructor of \<open>MathProblem\<close>, whose operands are \<open>NaN\<close>.
\<close>

theorem inherited_name_passes_validation:
  "WorksheetConfig_new (no_options\<lparr>opt_difficulty := Some ''constructor''\<rparr>) =
     Inr (default_config\<lparr>difficulty := ''constructor''\<rparr>) \<and>
   DIFFICULTY_LEVELS (difficulty (default_config\<lparr>difficulty := ''constructor''\<rparr>)) = None \<and>
   update default_config (no_updates\<lparr>upd_operationType := Some ''toString''\<rparr>) =
     (default_config\<lparr>operationType := ''toString''\<rparr>, Inr ()) \<and>
   OPERATION_TYPES (operationType (default_config\<lparr>operationType := ''toString''\<rparr>)) = None \<and>
   fst (generateProblems rnd_zero (Some (default_config\<lparr>difficulty := ''constructor''\<rparr>))
          Undefined gen0) = Inl Operand1Invalid"
  by (simp add: config_defs table_defs default_config_def update_def apply_updates_def
      assign_def no_updates_def generateProblems_def effective_count_def num_or_def
      clear_tracking_def resetDistributionTracking_def slots_loop.simps fill_slot_def
      unique_loop.simps generateSingleProblem_def draw_operands_def random_def finish_nan_def
      generateId_def name_addition_def name_subtraction_def name_mixed_def maxRetries_def
      gen0_def ProblemGenerator_new_def)

text \<open>
  Claim C10. \<open>update\<close> writes the new values into the configuration before it validates,
  and a validation that throws undoes nothing: the configuration left behind holds the
  values of \<open>updates\<close> and is the invalid configuration the error is about.
\<close>

theorem update_not_atomic:
  assumes "snd (update c u) = Inl e"
  shows "WorksheetConfig_validate (fst (update c u)) = Inl e \<and>
    (\<forall>v. upd_difficulty u = Some v \<longrightarrow> difficulty (fst (update c u)) = v) \<and>
    (\<forall>v. upd_operationType u = Some v \<longrightarrow> operationType (fst (update c u)) = v) \<and>
    (\<forall>v. upd_layout u = Some v \<longrightarrow> layout (fst (update c u)) = v) \<and>
    (\<forall>v. upd_backgroundStyle u = Some v \<longrightarrow> backgroundStyle (fst (update c u)) = v) \<and>
    (\<forall>v. upd_customBackgroundUrl u = Some v \<longrightarrow> customBackgroundUrl (fst (update c u)) = v) \<and>
    (\<forall>n. upd_problemCount u = Some n \<and> truthy_num n \<longrightarrow> problemCount (fst (update c u)) = n)"
  using assms unfolding update_def Let_def apply_updates_def assign_def
  by (auto split: if_splits)

theorem update_not_atomic_witness:
  "update default_config (no_updates\<lparr>upd_problemCount := Some (Num 100)\<rparr>) =
     (default_config\<lparr>problemCount := Num 100\<rparr>, Inl ProblemCountOutOfRange) \<and>
   WorksheetConfig_validate default_config = Inr () \<and>
   WorksheetConfig_validate (default_config\<lparr>problemCount := Num 100\<rparr>) =
     Inl ProblemCountOutOfRange \<and>
   problemCount (fst (update default_config (no_updates\<lparr>upd_problemCount := Some (Num 100)\<rparr>))) =
     Num 100"
proof -
  let ?u = "no_updates\<lparr>upd_problemCount := Some (Num 100)\<rparr>"
  have run: "update default_config ?u =
     (default_config\<lparr>problemCount := Num 100\<rparr>, Inl ProblemCountOutOfRange)"
    by (simp add: config_defs table_defs default_config_def update_def apply_updates_def
      assign_def no_updates_def)
  have before: "WorksheetConfig_validate default_config = Inr ()"
    by (simp add: config_defs table_defs default_config_def)
  have failed: "snd (update default_config ?u) = Inl ProblemCountOutOfRange"
    using run by simp
  have u: "upd_problemCount ?u = Some (Num 100) \<and> truthy_num (Num 100)"
    by (simp add: truthy_num_def)
  note facts = update_not_atomic [OF failed]
  from facts run
  have after: "WorksheetConfig_validate (default_config\<lparr>problemCount := Num 100\<rparr>) =
     Inl ProblemCountOutOfRange"
    by simp
  from facts u
  have kept: "problemCount (fst (update default_config ?u)) = Num 100"
    by blast
  from run before after kept show ?thesis by blast
qed

section \<open>Properties of ProblemGenerator\<close>

lemma random_bounds:
  assumes "random rnd s = (r, s1)"
  shows "0 \<le> r" and "r < 1" and "s1 = s\<lparr>draws := Suc (draws s)\<rparr>"
  using assms Rep_unit_rat [of "rnd (draws s)"] by (auto simp: random_def)

lemma random_eq: "random rnd s = (Rep_unit_rat (rnd (draws s)), s\<lparr>draws := Suc (draws s)\<rparr>)"
  by (simp add: random_def)

lemma uniform_draw_in_range:
  fixes r lo hi :: rat
  assumes r: "0 \<le> r" "r < 1" and lo: "lo \<in> \<int>" and hi: "hi \<in> \<int>" and le: "lo \<le> hi"
  shows "lo \<le> of_int \<lfloor>r * (hi - lo + 1)\<rfloor> + lo"
    and "of_int \<lfloor>r * (hi - lo + 1)\<rfloor> + lo \<le> hi"
    and "of_int \<lfloor>r * (hi - lo + 1)\<rfloor> + lo \<in> \<int>"
proof -
  from lo hi obtain m :: int where m: "hi - lo = of_int m"
    by (metis Ints_cases of_int_diff)
  with le have m0: "0 \<le> m" by simp
  have pos: "0 \<le> r * (hi - lo + 1)"
    using r le by simp
  then have "0 \<le> \<lfloor>r * (hi - lo + 1)\<rfloor>"
    by simp
  then show "lo \<le> of_int \<lfloor>r * (hi - lo + 1)\<rfloor> + lo"
    by simp
  have "r * (hi - lo + 1) < 1 * (hi - lo + 1)"
    using r le by (intro mult_strict_right_mono) auto
  then have "r * (hi - lo + 1) < of_int (m + 1)"
    using m by simp
  then have "\<lfloor>r * (hi - lo + 1)\<rfloor> < m + 1"
    by (simp only: floor_less_iff)
  then have "\<lfloor>r * (hi - lo + 1)\<rfloor> \<le> m"
    by simp
  then have "(of_int \<lfloor>r * (hi - lo + 1)\<rfloor> :: rat) \<le> of_int m"
    by (simp only: of_int_le_iff)
  then show "of_int \<lfloor>r * (hi - lo + 1)\<rfloor> + lo \<le> hi"
    using m by linarith
  show "of_int \<lfloor>r * (hi - lo + 1)\<rfloor> + lo \<in> \<int>"
    using lo by simp
qed

lemma randomInt_plain:
  "randomInt rnd lo hi False s =
     (Inr (of_int \<lfloor>Rep_unit_rat (rnd (draws s)) * (hi - lo + 1)\<rfloor> + lo),
      s\<lparr>draws := Suc (draws s)\<rparr>)"
  by (simp add: randomInt_def random_def)

lemma make_problem_ok:
  assumes "a \<in> \<int>" "0 \<le> a" "b \<in> \<int>" "0 \<le> b"
    and "opr = ''+'' \<or> opr = ''-'' \<and> b \<le> a"
  shows "make_problem rnd a b opr s =
     (Inr \<lparr>operand1 = a, operand2 = b, operator = opr,
           result = (if opr = ''+'' then a + b else a - b),
           ident = GeneratedId (Rep_unit_rat (rnd (draws s)))\<rparr>,
      s\<lparr>draws := Suc (draws s)\<rparr>)"
proof -
  let ?p = "\<lparr>operand1 = a, operand2 = b, operator = opr,
           result = (if opr = ''+'' then a + b else a - b),
           ident = GeneratedId (Rep_unit_rat (rnd (draws s)))\<rparr>"
  have "MathProblem_validate ?p = Inr ()"
    using assms by (subst MathProblem_validate_ok_iff) auto
  then show ?thesis
    by (simp add: make_problem_def MathProblem_new_def generateId_def random_def)
qed

text \<open>What is known of the difficulty levels and operation types of the tables.\<close>

lemma difficulty_level_cases:
  assumes "DIFFICULTY_LEVELS k = Some d"
  shows "minNumber d = 1 \<and> maxNumber d \<in> {10, 20, 50, 100}"
  using assms by (auto simp: DIFFICULTY_LEVELS_def split: if_splits)

lemma difficulty_level_integers:
  assumes "DIFFICULTY_LEVELS k = Some d"
  shows "minNumber d \<in> \<int>" "maxNumber d \<in> \<int>" "0 \<le> minNumber d" "minNumber d \<le> maxNumber d"
  using difficulty_level_cases [OF assms] by auto

lemma operation_type_cases:
  assumes "OPERATION_TYPES k = Some oc"
  shows "name oc = name_addition \<or> name oc = name_subtraction \<or> name oc = name_mixed"
  using assms by (auto simp: OPERATION_TYPES_def split: if_splits)

lemma only_draws_refl: "only_draws s s"
  unfolding only_draws_def by (rule exI [of _ "draws s"]) simp

lemma only_draws_step: "only_draws s (s\<lparr>draws := n\<rparr>)"
  unfolding only_draws_def by blast

lemma only_draws_trans: "only_draws s s1 \<Longrightarrow> only_draws s1 s2 \<Longrightarrow> only_draws s s2"
  unfolding only_draws_def by auto

lemma only_draws_fields:
  assumes "only_draws s s1"
  shows "generatedProblems s1 = generatedProblems s"
    and "numberUsageTracker s1 = numberUsageTracker s"
    and "console s1 = console s"
  using assms unfolding only_draws_def by auto

lemma finish_problem_ok:
  assumes ab: "a \<in> \<int>" "0 \<le> a" "b \<in> \<int>" "0 \<le> b"
    and nm: "name oc = name_addition \<or> name oc = name_subtraction \<or> name oc = name_mixed"
  shows "\<exists>p s1. finish_problem rnd (Own oc) a b s = (Inr p, s1) \<and>
           (operand1 p = a \<and> operand2 p = b \<or> operand1 p = b \<and> operand2 p = a) \<and>
           only_draws s s1"
proof -
  have sub: "\<And>s'. \<exists>p. (if a < b then make_problem rnd b a ''-'' s' else make_problem rnd a b ''-'' s')
         = (Inr p, s'\<lparr>draws := Suc (draws s')\<rparr>) \<and>
         (operand1 p = a \<and> operand2 p = b \<or> operand1 p = b \<and> operand2 p = a)"
    using ab by (auto simp: make_problem_ok)
  have add: "\<And>s'. \<exists>p. make_problem rnd a b ''+'' s' = (Inr p, s'\<lparr>draws := Suc (draws s')\<rparr>) \<and>
         (operand1 p = a \<and> operand2 p = b \<or> operand1 p = b \<and> operand2 p = a)"
    using ab by (auto simp: make_problem_ok)
  consider (a) "name oc = name_addition"
    | (s) "name oc \<noteq> name_addition" "name oc = name_subtraction"
    | (m) "name oc \<noteq> name_addition" "name oc \<noteq> name_subtraction" "name oc = name_mixed"
    using nm by blast
  then show ?thesis
  proof cases
    case a
    with add [of s] show ?thesis
      by (auto simp: finish_problem_def only_draws_step)
  next
    case s
    with sub [of s] show ?thesis
      by (auto simp: finish_problem_def only_draws_step)
  next
    case m
    let ?s1 = "s\<lparr>draws := Suc (draws s)\<rparr>"
    show ?thesis
    proof (cases "Rep_unit_rat (rnd (draws s)) < 1 / 2")
      case True
      with m add [of ?s1] show ?thesis
        by (auto simp: finish_problem_def random_def only_draws_def)
    next
      case False
      with m sub [of ?s1] show ?thesis
        by (auto simp: finish_problem_def random_def only_draws_def)
    qed
  qed
qed

lemma generateSingleProblem_ok:
  assumes d: "DIFFICULTY_LEVELS k = Some d" and oc: "OPERATION_TYPES k' = Some oc"
  shows "\<exists>p s1. generateSingleProblem rnd (Own d) (Own oc) s = (Inr p, s1) \<and>
           operands_in_range d p \<and> only_draws s s1"
proof -
  note di = difficulty_level_integers [OF d]
  let ?r1 = "Rep_unit_rat (rnd (draws s))"
  let ?s1 = "s\<lparr>draws := Suc (draws s)\<rparr>"
  let ?r2 = "Rep_unit_rat (rnd (Suc (draws s)))"
  let ?s2 = "s\<lparr>draws := Suc (Suc (draws s))\<rparr>"
  let ?a = "of_int \<lfloor>?r1 * (maxNumber d - minNumber d + 1)\<rfloor> + minNumber d"
  let ?b = "of_int \<lfloor>?r2 * (maxNumber d - minNumber d + 1)\<rfloor> + minNumber d"
  have r1: "0 \<le> ?r1" "?r1 < 1" and r2: "0 \<le> ?r2" "?r2 < 1"
    using Rep_unit_rat [of "rnd (draws s)"] Rep_unit_rat [of "rnd (Suc (draws s))"] by auto
  note a = uniform_draw_in_range [OF r1 di(1) di(2) di(4)]
  note b = uniform_draw_in_range [OF r2 di(1) di(2) di(4)]
  have a0: "0 \<le> ?a" using a(1) di(3) by linarith
  have b0: "0 \<le> ?b" using b(1) di(3) by linarith
  from finish_problem_ok [OF a(3) a0 b(3) b0 operation_type_cases [OF oc], of rnd ?s2]
  obtain p s3 where fin: "finish_problem rnd (Own oc) ?a ?b ?s2 = (Inr p, s3)"
    and ops: "operand1 p = ?a \<and> operand2 p = ?b \<or> operand1 p = ?b \<and> operand2 p = ?a"
    and od: "only_draws ?s2 s3"
    by blast
  have run: "generateSingleProblem rnd (Own d) (Own oc) s = (Inr p, s3)"
    unfolding generateSingleProblem_def draw_operands_def
    by (simp add: randomInt_plain fin)
  have rng: "operands_in_range d p"
    unfolding operands_in_range_def using ops a(1,2) b(1,2) by auto
  have "only_draws s ?s2"
    unfolding only_draws_def by auto
  from this od have "only_draws s s3"
    by (rule only_draws_trans)
  with run rng show ?thesis by blast
qed

lemma validateProblem_state:
  assumes "validateProblem p cfg s = (ok, s2)"
  shows "generatedProblems s2 = generatedProblems s"
    and "numberUsageTracker s2 = numberUsageTracker s"
    and "draws s2 = draws s"
  using assms unfolding validateProblem_def warn_def
  by (auto split: sum.splits if_splits lookup.splits)

lemma accept_generatedProblems:
  "generatedProblems (accept p s) = insert (getProblemSignature p) (generatedProblems s)"
  by (simp add: accept_def trackNumberUsage_def)

text \<open>The inner loop, for a function \<open>single\<close> that always makes a problem with \<open>P\<close>.\<close>

lemma unique_loop_total:
  assumes single: "\<And>s. \<exists>p s1. single s = (Inr p, s1) \<and> P p \<and>
                      generatedProblems s1 = generatedProblems s"
    and k: "k \<le> maxRetries"
  shows "\<exists>found n s1. unique_loop single cfg k s = (Inr (found, n), s1) \<and>
           k \<le> n \<and> n \<le> maxRetries \<and>
           (case found of
              None \<Rightarrow> n = maxRetries \<and> generatedProblems s1 = generatedProblems s
            | Some p \<Rightarrow>
                P p \<and> getProblemSignature p \<notin> generatedProblems s \<and>
                generatedProblems s1 = insert (getProblemSignature p) (generatedProblems s))"
  using assms
proof (induction single cfg k s rule: unique_loop.induct)
  case (1 single cfg k s)
  note single = "1.prems"(1)
  show ?case
  proof (cases "k < maxRetries")
    case False
    with "1.prems"(2) have "k = maxRetries" by simp
    then show ?thesis
      by (subst unique_loop.simps) simp
  next
    case True
    from single [of s] obtain p s1 where sp: "single s = (Inr p, s1)" and Pp: "P p"
      and g1: "generatedProblems s1 = generatedProblems s"
      by blast
    obtain ok s2 where vp: "validateProblem p cfg s1 = (ok, s2)"
      by (cases "validateProblem p cfg s1")
    note g2 = validateProblem_state(1) [OF vp]
    show ?thesis
    proof (cases "ok \<and> \<not> isDuplicate p s2")
      case yes: True
      then have "unique_loop single cfg k s = (Inr (Some p, k + 1), accept p s2)"
        using True sp vp by (subst unique_loop.simps) simp
      moreover have "getProblemSignature p \<notin> generatedProblems s"
        using yes g1 g2 by (simp add: isDuplicate_def)
      moreover have "generatedProblems (accept p s2) =
          insert (getProblemSignature p) (generatedProblems s)"
        using g1 g2 by (simp add: accept_generatedProblems)
      ultimately show ?thesis
        using True Pp by simp
    next
      case no: False
      then have step: "unique_loop single cfg k s = unique_loop single cfg (k + 1) s2"
        using True sp vp by (subst unique_loop.simps) auto
      from True have "k + 1 \<le> maxRetries" by simp
      from "1.IH" [OF True sp [symmetric] refl vp [symmetric] no single this]
      obtain found n s3 where
        rec: "unique_loop single cfg (k + 1) s2 = (Inr (found, n), s3)"
        and n: "k + 1 \<le> n" "n \<le> maxRetries"
        and f: "(case found of
              None \<Rightarrow> n = maxRetries \<and> generatedProblems s3 = generatedProblems s2
            | Some p \<Rightarrow>
                P p \<and> getProblemSignature p \<notin> generatedProblems s2 \<and>
                generatedProblems s3 = insert (getProblemSignature p) (generatedProblems s2))"
        by blast
      from f g1 g2 have "(case found of
              None \<Rightarrow> n = maxRetries \<and> generatedProblems s3 = generatedProblems s
            | Some p \<Rightarrow>
                P p \<and> getProblemSignature p \<notin> generatedProblems s \<and>
                generatedProblems s3 = insert (getProblemSignature p) (generatedProblems s))"
        by (simp split: option.splits)
      with step rec n show ?thesis
        by simp
    qed
  qed
qed

lemmas gen_defs =
  generateProblems_def effective_count_def num_or_def clear_tracking_def
  resetDistributionTracking_def fill_slot_def generateSingleProblem_def draw_operands_def
  randomInt_def random_def finish_problem_def make_problem_def MathProblem_new_def
  MathProblem_validate_def generateId_def isInteger_def validateProblem_def
  fitsInDifficulty_def isDuplicate_def getProblemSignature_def accept_def
  trackNumberUsage_def getNumberUsage_def number_to_string_def show_nat_def
  decimal_digits.simps digit_char_def maxRetries_def warn_def duplicate_warning_def
  name_addition_def name_subtraction_def name_mixed_def unit_of.rep_eq
  ProblemGenerator_new_def

text \<open>One slot: a fresh problem, or after \<open>maxRetries\<close> candidates a further one and a warning.\<close>

lemma fill_slot_total:
  assumes single: "\<And>s. \<exists>p s1. single s = (Inr p, s1) \<and> P p \<and>
                      generatedProblems s1 = generatedProblems s"
  shows "\<exists>found n s1. unique_loop single cfg 0 s = (Inr (found, n), s1) \<and> n \<le> maxRetries \<and>
           (case found of
              Some p \<Rightarrow>
                P p \<and> getProblemSignature p \<notin> generatedProblems s \<and>
                fill_slot single cfg i s = (Inr p, s1)
            | None \<Rightarrow>
                n = maxRetries \<and>
                (\<exists>p s2. single s1 = (Inr p, s2) \<and> P p \<and>
                   fill_slot single cfg i s = (Inr p, warn (duplicate_warning i) s2)))"
proof -
  from unique_loop_total [of single P 0 cfg s, OF single]
  obtain found n s1 where
    run: "unique_loop single cfg 0 s = (Inr (found, n), s1)" and n: "n \<le> maxRetries"
    and f: "(case found of
              None \<Rightarrow> n = maxRetries \<and> generatedProblems s1 = generatedProblems s
            | Some p \<Rightarrow>
                P p \<and> getProblemSignature p \<notin> generatedProblems s \<and>
                generatedProblems s1 = insert (getProblemSignature p) (generatedProblems s))"
    by auto
  show ?thesis
  proof (cases found)
    case None
    from single [of s1] obtain p s2 where sp: "single s1 = (Inr p, s2)" and Pp: "P p"
      by blast
    have "fill_slot single cfg i s = (Inr p, warn (duplicate_warning i) s2)"
      by (simp add: fill_slot_def run None sp)
    with run n f None sp Pp show ?thesis
      by auto
  next
    case (Some p)
    have "fill_slot single cfg i s = (Inr p, s1)"
      by (simp add: fill_slot_def run Some)
    with run n f Some show ?thesis
      by auto
  qed
qed

lemma fill_slot_ok:
  assumes single: "\<And>s. \<exists>p s1. single s = (Inr p, s1) \<and> P p \<and>
                      generatedProblems s1 = generatedProblems s"
  shows "\<exists>p s1. fill_slot single cfg i s = (Inr p, s1) \<and> P p"
proof -
  from fill_slot_total [of single P cfg s i, OF single]
  obtain found n s1 where
    f: "(case found of
              Some p \<Rightarrow>
                P p \<and> getProblemSignature p \<notin> generatedProblems s \<and>
                fill_slot single cfg i s = (Inr p, s1)
            | None \<Rightarrow>
                n = maxRetries \<and>
                (\<exists>p s2. single s1 = (Inr p, s2) \<and> P p \<and>
                   fill_slot single cfg i s = (Inr p, warn (duplicate_warning i) s2)))"
    by blast
  then show ?thesis
    by (cases found) auto
qed

lemma slots_loop_total:
  assumes single: "\<And>s. \<exists>p s1. single s = (Inr p, s1) \<and> P p \<and>
                      generatedProblems s1 = generatedProblems s"
  shows "\<exists>ps' s1. slots_loop single cfg wanted i ps s = (Inr ps', s1) \<and>
           length ps' = length ps + (nat \<lceil>wanted\<rceil> - i) \<and>
           (\<forall>p \<in> set ps'. p \<in> set ps \<or> P p)"
  using assms
proof (induction single cfg wanted i ps s rule: slots_loop.induct)
  case (1 single cfg wanted i ps s)
  note single = "1.prems"
  show ?case
  proof (cases "of_nat i < wanted")
    case False
    then have "\<lceil>wanted\<rceil> \<le> int i"
      by (simp add: ceiling_le_iff)
    then have "nat \<lceil>wanted\<rceil> - i = 0"
      by simp
    with False show ?thesis
      by (subst slots_loop.simps) simp
  next
    case True
    then have "int i < \<lceil>wanted\<rceil>"
      by (simp add: less_ceiling_iff)
    then have lt: "i < nat \<lceil>wanted\<rceil>"
      by simp
    from fill_slot_ok [of single P cfg i s, OF single]
    obtain p s1 where fs: "fill_slot single cfg i s = (Inr p, s1)" and Pp: "P p"
      by blast
    from "1.IH" [OF True fs [symmetric] refl single]
    obtain ps' s2 where
      rec: "slots_loop single cfg wanted (i + 1) (ps @ [p]) s1 = (Inr ps', s2)"
      and len: "length ps' = length (ps @ [p]) + (nat \<lceil>wanted\<rceil> - (i + 1))"
      and mem: "\<forall>q \<in> set ps'. q \<in> set (ps @ [p]) \<or> P q"
      by blast
    have "slots_loop single cfg wanted i ps s = (Inr ps', s2)"
      using True fs rec by (subst slots_loop.simps) simp
    moreover have "length ps' = length ps + (nat \<lceil>wanted\<rceil> - i)"
      using len lt by simp
    moreover have "\<forall>q \<in> set ps'. q \<in> set ps \<or> P q"
      using mem Pp by auto
    ultimately show ?thesis
      by blast
  qed
qed

lemma valid_config_lookups:
  assumes "valid_config c"
  obtains d oc where "DIFFICULTY_LEVELS (difficulty c) = Some d"
    and "OPERATION_TYPES (operationType c) = Some oc"
    and "get_prop DIFFICULTY_LEVELS (difficulty c) = Own d"
    and "get_prop OPERATION_TYPES (operationType c) = Own oc"
  using assms unfolding valid_config_def get_prop_def by auto

lemma valid_config_count:
  assumes "valid_config c"
  obtains n :: nat where "problemCount c = Num (of_nat n)" and "1 \<le> n" and "n \<le> 50"
proof -
  from assms obtain q where q: "problemCount c = Num q" "isInteger q" "1 \<le> q" "q \<le> 50"
    unfolding valid_config_def by (auto split: jsnum.splits)
  from q(2) have "of_int \<lfloor>q\<rfloor> = q"
    unfolding isInteger_def .
  then have "q = of_int \<lfloor>q\<rfloor>"
    by (rule sym)
  moreover from q(3) have "1 \<le> \<lfloor>q\<rfloor>"
    by (simp add: le_floor_iff)
  ultimately have "q = of_nat (nat \<lfloor>q\<rfloor>)"
    by simp
  moreover have "1 \<le> nat \<lfloor>q\<rfloor>"
    using \<open>1 \<le> \<lfloor>q\<rfloor>\<close> by arith
  moreover have "\<lfloor>q\<rfloor> \<le> 50"
    using q(4) by (simp add: floor_le_iff)
  then have "nat \<lfloor>q\<rfloor> \<le> 50"
    by arith
  ultimately show thesis
    using that q(1) by metis
qed

lemma generateProblems_total:
  assumes v: "valid_config c" and d: "DIFFICULTY_LEVELS (difficulty c) = Some d"
  shows "\<exists>ps s1. generateProblems rnd (Some c) count s = (Inr ps, s1) \<and>
           length ps = nat \<lceil>effective_count count c\<rceil> \<and>
           (\<forall>p \<in> set ps. operands_in_range d p)"
proof -
  from valid_config_lookups [OF v] d obtain oc where
    oc: "OPERATION_TYPES (operationType c) = Some oc"
    and gd: "get_prop DIFFICULTY_LEVELS (difficulty c) = Own d"
    and go: "get_prop OPERATION_TYPES (operationType c) = Own oc"
    by (metis option.inject)
  let ?single = "generateSingleProblem rnd (Own d) (Own oc)"
  have single: "\<And>s. \<exists>p s1. ?single s = (Inr p, s1) \<and> operands_in_range d p \<and>
                      generatedProblems s1 = generatedProblems s"
    using generateSingleProblem_ok [OF d oc] only_draws_fields(1) by blast
  from slots_loop_total [of ?single "operands_in_range d" c "effective_count count c" 0 "[]"
      "clear_tracking s", OF single]
  show ?thesis
    by (simp add: generateProblems_def gd go)
qed

text \<open>
  Claim C3. For a valid configuration, both operands of every problem that
  \<open>generateProblems\<close> returns lie in the range from \<open>minNumber\<close> to \<open>maxNumber\<close> of
  the configured difficulty: 1 to 10 for \<open>within10\<close>, 1 to 20, 1 to 50, and 1 to 100
  for \<open>within100\<close>.
\<close>

theorem generateProblems_range_invariant:
  assumes "valid_config c"
    and "generateProblems rnd (Some c) count s = (Inr ps, s1)"
    and "p \<in> set ps"
  shows "(\<exists>d. DIFFICULTY_LEVELS (difficulty c) = Some d \<and>
            minNumber d \<le> operand1 p \<and> operand1 p \<le> maxNumber d \<and>
            minNumber d \<le> operand2 p \<and> operand2 p \<le> maxNumber d) \<and>
         DIFFICULTY_LEVELS ''within10'' = Some \<lparr>maxNumber = 10, minNumber = 1\<rparr> \<and>
         DIFFICULTY_LEVELS ''within20'' = Some \<lparr>maxNumber = 20, minNumber = 1\<rparr> \<and>
         DIFFICULTY_LEVELS ''within50'' = Some \<lparr>maxNumber = 50, minNumber = 1\<rparr> \<and>
         DIFFICULTY_LEVELS ''within100'' = Some \<lparr>maxNumber = 100, minNumber = 1\<rparr>"
proof -
  from valid_config_lookups [OF assms(1)] obtain d where
    d: "DIFFICULTY_LEVELS (difficulty c) = Some d"
    by blast
  from generateProblems_total [OF assms(1) d, of rnd count s] assms(2,3)
  have "operands_in_range d p"
    by auto
  with d have "\<exists>d. DIFFICULTY_LEVELS (difficulty c) = Some d \<and>
            minNumber d \<le> operand1 p \<and> operand1 p \<le> maxNumber d \<and>
            minNumber d \<le> operand2 p \<and> operand2 p \<le> maxNumber d"
    unfolding operands_in_range_def by blast
  then show ?thesis
    by (simp add: DIFFICULTY_LEVELS_def)
qed

lemma default_config_valid: "valid_config default_config"
  by (simp add: valid_config_def default_config_def table_defs isInteger_def truthy_str_def)

theorem generateProblems_range_invariant_witness:
  "valid_config default_config \<and>
   generateProblems rnd_zero (Some default_config) (Num 1) gen0 =
     (Inr [\<lparr>operand1 = 1, operand2 = 1, operator = ''+'', result = 2, ident = GeneratedId 0\<rparr>],
      snd (generateProblems rnd_zero (Some default_config) (Num 1) gen0)) \<and>
   (1 :: rat) \<le> operand1 \<lparr>operand1 = 1, operand2 = 1, operator = ''+'', result = 2,
                              ident = GeneratedId 0\<rparr> \<and>
   operand1 \<lparr>operand1 = 1, operand2 = 1, operator = ''+'', result = 2,
             ident = GeneratedId 0\<rparr> \<le> (20 :: rat)"
proof -
  let ?p = "\<lparr>operand1 = 1, operand2 = 1, operator = ''+'', result = 2, ident = GeneratedId 0\<rparr>"
  have "fst (generateProblems rnd_zero (Some default_config) (Num 1) gen0) = Inr [?p]"
    by (simp add: gen_defs table_defs default_config_def gen0_def rnd_zero_def
      slots_loop.simps unique_loop.simps)
  then have run: "generateProblems rnd_zero (Some default_config) (Num 1) gen0 =
     (Inr [?p], snd (generateProblems rnd_zero (Some default_config) (Num 1) gen0))"
    by (metis prod.collapse)
  have mem: "?p \<in> set [?p]"
    by simp
  from generateProblems_range_invariant [OF default_config_valid run mem]
  obtain d where "DIFFICULTY_LEVELS (difficulty default_config) = Some d"
    and b: "minNumber d \<le> operand1 ?p" "operand1 ?p \<le> maxNumber d"
    by blast
  then have "d = \<lparr>maxNumber = 20, minNumber = 1\<rparr>"
    by (simp add: default_config_def DIFFICULTY_LEVELS_def)
  with b have "(1 :: rat) \<le> operand1 ?p" "operand1 ?p \<le> (20 :: rat)"
    by simp_all
  with default_config_valid run show ?thesis
    by blast
qed



lemma effective_count_zero:
  assumes "valid_config c"
  shows "problemCount c = Num (of_nat (nat \<lceil>effective_count (Num 0) c\<rceil>))"
proof -
  from valid_config_count [OF assms] obtain n :: nat where
    n: "problemCount c = Num (of_nat n)" "1 \<le> n"
    by blast
  then have "effective_count (Num 0) c = of_nat n"
    by (simp add: effective_count_def num_or_def)
  with n show ?thesis
    by simp
qed



lemma shuffle_loop_length:
  "length (fst (shuffle_loop rnd k xs s)) = length xs"
proof (induction k arbitrary: xs s)
  case 0
  show ?case by simp
next
  case (Suc k)
  show ?case
    by (simp add: Let_def split_beta Suc.IH)
qed

lemma shuffleArray_length: "length (fst (shuffleArray rnd xs s)) = length xs"
  by (simp add: shuffleArray_def shuffle_loop_length)

lemma mixed_config_parts:
  "clone mixed_config = Inr mixed_config"
  "valid_config (mixed_config\<lparr>operationType := ''addition''\<rparr>)"
  "valid_config (mixed_config\<lparr>operationType := ''subtraction''\<rparr>)"
  by (simp_all add: clone_def config_defs table_defs mixed_config_def default_config_def
      valid_config_def)

text \<open>
  Claim C2. \<open>generateProblems(config, count)\<close> is to return exactly \<open>count\<close> problems
  for every supplied count, 0 included. The count is read as
  \<open>count || config.problemCount || 20\<close>, so a count of 0 gives way to the
  configuration's count: with the default configuration, 20 problems are returned.
  \<open>generateBalancedProblems\<close> relies on the stated behaviour: asked for 4 problems
  with an addition ratio of 1, it requests 4 additions and 0 subtractions and returns
  24 problems.
\<close>

theorem count_zero_generates_problemCount_problems:
  "(\<exists>ps s1. generateProblems rnd_zero (Some default_config) (Num 0) gen0 = (Inr ps, s1) \<and>
      length ps = 20) \<and>
   (\<exists>ps s1. generateBalancedProblems rnd_zero (Some mixed_config) (Num 4) 1 gen0 = (Inr ps, s1) \<and>
      length ps = 24)"
proof
  have d: "DIFFICULTY_LEVELS (difficulty default_config) = Some \<lparr>maxNumber = 20, minNumber = 1\<rparr>"
    by (simp add: default_config_def DIFFICULTY_LEVELS_def)
  have "nat \<lceil>effective_count (Num 0) default_config\<rceil> = 20"
    by (simp add: effective_count_def num_or_def default_config_def)
  with generateProblems_total [OF default_config_valid d, of rnd_zero "Num 0" gen0]
  show "\<exists>ps s1. generateProblems rnd_zero (Some default_config) (Num 0) gen0 = (Inr ps, s1) \<and>
      length ps = 20"
    by auto
next
  let ?add = "mixed_config\<lparr>operationType := ''addition''\<rparr>"
  let ?sub = "mixed_config\<lparr>operationType := ''subtraction''\<rparr>"
  let ?d = "\<lparr>maxNumber = 20, minNumber = 1\<rparr>"
  have da: "DIFFICULTY_LEVELS (difficulty ?add) = Some ?d"
    and ds: "DIFFICULTY_LEVELS (difficulty ?sub) = Some ?d"
    by (simp_all add: mixed_config_def default_config_def DIFFICULTY_LEVELS_def)
  have wanted: "effective_count (Num 4) mixed_config = 4"
    by (simp add: effective_count_def num_or_def)
  have "\<lfloor>(4 :: rat) + 1 / 2\<rfloor> = 4"
    by (simp add: floor_eq_iff)
  then have shares: "js_round 4 = 4"
    by (simp only: js_round_def of_int_numeral)
  have ca: "nat \<lceil>effective_count (Num 4) ?add\<rceil> = 4"
    by (simp add: effective_count_def num_or_def)
  have cs: "nat \<lceil>effective_count (Num 0) ?sub\<rceil> = 20"
    by (simp add: effective_count_def num_or_def mixed_config_def default_config_def)
  from generateProblems_total [OF mixed_config_parts(2) da, of rnd_zero "Num 4" gen0] ca
  obtain ps1 s1 where g1: "generateProblems rnd_zero (Some ?add) (Num 4) gen0 = (Inr ps1, s1)"
    and l1: "length ps1 = 4"
    by auto
  from generateProblems_total [OF mixed_config_parts(3) ds, of rnd_zero "Num 0" s1] cs
  obtain ps2 s2 where g2: "generateProblems rnd_zero (Some ?sub) (Num 0) s1 = (Inr ps2, s2)"
    and l2: "length ps2 = 20"
    by auto
  obtain sh s3 where sh: "shuffleArray rnd_zero (ps1 @ ps2) s2 = (sh, s3)"
    by (cases "shuffleArray rnd_zero (ps1 @ ps2) s2")
  with shuffleArray_length [of rnd_zero "ps1 @ ps2" s2] l1 l2 have l3: "length sh = 24"
    by simp
  have mixed: "operationType mixed_config = ''mixed''"
    by (simp add: mixed_config_def)
  have "generateBalancedProblems rnd_zero (Some mixed_config) (Num 4) 1 gen0 = (Inr sh, s3)"
    unfolding generateBalancedProblems_def
    by (simp add: wanted shares mixed mixed_config_parts(1) g1 g2 sh Let_def)
  with l3 show "\<exists>ps s1. generateBalancedProblems rnd_zero (Some mixed_config) (Num 4) 1 gen0 =
      (Inr ps, s1) \<and> length ps = 24"
    by blast
qed

















section \<open>Properties of the ratio-controlled generation\<close>














section \<open>Properties of LayoutEngine\<close>

lemma no_overlaps_pairwise:
  assumes "\<not> hasOverlaps ps" and "i < j" and "j < length ps"
  shows "\<not> problemsOverlap (ps ! i) (ps ! j)"
  using assms
proof (induction ps arbitrary: i j)
  case Nil
  then show ?case by simp
next
  case (Cons p qs)
  from Cons.prems(2) obtain j' where j: "j = Suc j'"
    by (cases j) auto
  from Cons.prems(1) have first: "\<not> list_ex (problemsOverlap p) qs" and rest: "\<not> hasOverlaps qs"
    by simp_all
  show ?case
  proof (cases i)
    case 0
    from Cons.prems(3) j have "qs ! j' \<in> set qs"
      by simp
    with first have "\<not> problemsOverlap p (qs ! j')"
      by (auto simp: list_ex_iff)
    with 0 j show ?thesis
      by simp
  next
    case (Suc i')
    with Cons.prems(2,3) j have "i' < j'" "j' < length qs"
      by simp_all
    from Cons.IH [OF rest this] Suc j show ?thesis
      by simp
  qed
qed

lemma intersect_overlap:
  assumes "rectangles_intersect (pp_position a) (pp_position b)"
  shows "problemsOverlap a b"
proof -
  from assms obtain px py where "inside (pp_position a) px py" "inside (pp_position b) px py"
    unfolding rectangles_intersect_def by blast
  then show ?thesis
    unfolding inside_def problemsOverlap_def Let_def by auto
qed

lemma returned_layout_validated:
  assumes "calculateLayout g probs config e = (Inr lay, e')"
  shows "validateLayout lay"
  using assms unfolding calculateLayout_def Let_def
  by (auto split: option.splits sum.splits if_splits)

text \<open>
  Claim C9. In every layout that \<open>calculateLayout\<close> returns, no two positioned
  problems' rectangles intersect, and every rectangle lies within the page: its left and
  top edges are not negative, its right edge is at most the page's width and its bottom
  edge at most the page's height.
\<close>

theorem layout_no_overlap_and_in_bounds:
  assumes "calculateLayout g probs config e = (Inr lay, e')"
  shows "(\<forall>i j. i < j \<and> j < length (lay_problems lay) \<longrightarrow>
            \<not> rectangles_intersect (pp_position (lay_problems lay ! i))
                 (pp_position (lay_problems lay ! j))) \<and>
         (\<forall>pp \<in> set (lay_problems lay).
            0 \<le> pos_x (pp_position pp) \<and> 0 \<le> pos_y (pp_position pp) \<and>
            pos_x (pp_position pp) + pos_width (pp_position pp) \<le> pageSize_width lay \<and>
            pos_y (pp_position pp) + pos_height (pp_position pp) \<le> pageSize_height lay)"
proof (intro conjI allI impI ballI)
  from returned_layout_validated [OF assms]
  have no: "\<not> hasOverlaps (lay_problems lay)"
    and fit: "problemsFitInBounds (lay_problems lay) lay"
    unfolding validateLayout_def by (auto split: if_splits)
  {
    fix i j assume "i < j \<and> j < length (lay_problems lay)"
    then have "\<not> problemsOverlap (lay_problems lay ! i) (lay_problems lay ! j)"
      using no_overlaps_pairwise [OF no] by blast
    then show "\<not> rectangles_intersect (pp_position (lay_problems lay ! i))
                 (pp_position (lay_problems lay ! j))"
      using intersect_overlap by blast
  }
  fix pp assume "pp \<in> set (lay_problems lay)"
  with fit have b: "\<not> (pos_x (pp_position pp) < 0 \<or> pos_y (pp_position pp) < 0 \<or>
            pos_x (pp_position pp) + pos_width (pp_position pp) > pageSize_width lay \<or>
            pos_y (pp_position pp) + pos_height (pp_position pp) > pageSize_height lay)"
    unfolding problemsFitInBounds_def list_all_iff by blast
  from b show "0 \<le> pos_x (pp_position pp)" by simp
  from b show "0 \<le> pos_y (pp_position pp)" by simp
  from b show "pos_x (pp_position pp) + pos_width (pp_position pp) \<le> pageSize_width lay"
    by simp
  from b show "pos_y (pp_position pp) + pos_height (pp_position pp) \<le> pageSize_height lay"
    by simp
qed

lemmas layout_defs =
  calculateLayout_def getLayoutConfig_def getCanvasConfig_def getFontConfig_def
  calculateAvailableSpace_def problemDimensions_height_def rows_needed_def
  calculateProblemPositions_def move_down_def optimizeVerticalSpacing_def
  optimizeHorizontalAlignment_def compare_positions_def sort_positions_def
  preventOverlaps_def optimizeSpacing_def validateProblemPosition_def problemsOverlap_def
  problemsFitInBounds_def validateLayout_def browser_globals_def CANVAS_CONFIG_def
  FONT_CONFIG_def LayoutEngine_new_def

lemma sample_layout_positions:
  "map pp_position
     (case fst (calculateLayout browser_globals (Some sampleProblems) (Some default_config)
                  LayoutEngine_new) of
        Inl e \<Rightarrow> []
      | Inr lay \<Rightarrow> lay_problems lay) =
       [\<lparr>pos_x = 150, pos_y = 150, pos_width = 1065, pos_height = 1016\<rparr>,
        \<lparr>pos_x = 1265, pos_y = 150, pos_width = 1065, pos_height = 1016\<rparr>,
        \<lparr>pos_x = 150, pos_y = 1246, pos_width = 1065, pos_height = 1016\<rparr>,
        \<lparr>pos_x = 1265, pos_y = 1246, pos_width = 1065, pos_height = 1016\<rparr>,
        \<lparr>pos_x = 150, pos_y = 2342, pos_width = 1065, pos_height = 1016\<rparr>,
        \<lparr>pos_x = 1265, pos_y = 2342, pos_width = 1065, pos_height = 1016\<rparr>]"
  by code_simp

theorem layout_no_overlap_and_in_bounds_witness:
  "\<exists>lay e'.
     calculateLayout browser_globals (Some sampleProblems) (Some default_config)
       LayoutEngine_new = (Inr lay, e') \<and>
     map pp_position (lay_problems lay) =
       [\<lparr>pos_x = 150, pos_y = 150, pos_width = 1065, pos_height = 1016\<rparr>,
        \<lparr>pos_x = 1265, pos_y = 150, pos_width = 1065, pos_height = 1016\<rparr>,
        \<lparr>pos_x = 150, pos_y = 1246, pos_width = 1065, pos_height = 1016\<rparr>,
        \<lparr>pos_x = 1265, pos_y = 1246, pos_width = 1065, pos_height = 1016\<rparr>,
        \<lparr>pos_x = 150, pos_y = 2342, pos_width = 1065, pos_height = 1016\<rparr>,
        \<lparr>pos_x = 1265, pos_y = 2342, pos_width = 1065, pos_height = 1016\<rparr>] \<and>
     \<not> rectangles_intersect (pp_position (lay_problems lay ! 0))
          (pp_position (lay_problems lay ! 1)) \<and>
     pos_y (pp_position (lay_problems lay ! 5)) + pos_height (pp_position (lay_problems lay ! 5))
       \<le> pageSize_height lay"
proof -
  let ?run = "calculateLayout browser_globals (Some sampleProblems) (Some default_config)
       LayoutEngine_new"
  let ?ps = "[\<lparr>pos_x = 150, pos_y = 150, pos_width = 1065, pos_height = 1016\<rparr>,
        \<lparr>pos_x = 1265, pos_y = 150, pos_width = 1065, pos_height = 1016\<rparr>,
        \<lparr>pos_x = 150, pos_y = 1246, pos_width = 1065, pos_height = 1016\<rparr>,
        \<lparr>pos_x = 1265, pos_y = 1246, pos_width = 1065, pos_height = 1016\<rparr>,
        \<lparr>pos_x = 150, pos_y = 2342, pos_width = 1065, pos_height = 1016\<rparr>,
        \<lparr>pos_x = 1265, pos_y = 2342, pos_width = 1065, pos_height = 1016\<rparr>]"
  obtain res e' where run: "?run = (res, e')"
    by (cases ?run)
  from sample_layout_positions run
  have m: "map pp_position (case res of Inl e \<Rightarrow> [] | Inr lay \<Rightarrow> lay_problems lay) = ?ps"
    by simp
  then obtain lay where res: "res = Inr lay"
    by (cases res) auto
  with m have pos: "map pp_position (lay_problems lay) = ?ps"
    by simp
  then have "length (map pp_position (lay_problems lay)) = 6"
    by simp
  then have len: "length (lay_problems lay) = 6"
    by simp
  from run res have ok: "?run = (Inr lay, e')"
    by simp
  note inv = layout_no_overlap_and_in_bounds [OF ok]
  from inv len have apart: "\<not> rectangles_intersect (pp_position (lay_problems lay ! 0))
          (pp_position (lay_problems lay ! 1))"
    by simp
  from len have "lay_problems lay ! 5 \<in> set (lay_problems lay)"
    by simp
  with inv have fits: "pos_y (pp_position (lay_problems lay ! 5)) +
      pos_height (pp_position (lay_problems lay ! 5)) \<le> pageSize_height lay"
    by blast
  show ?thesis
  proof (intro exI conjI)
    show "?run = (Inr lay, e')" by (rule ok)
    show "map pp_position (lay_problems lay) = ?ps" by (rule pos)
    show "\<not> rectangles_intersect (pp_position (lay_problems lay ! 0))
          (pp_position (lay_problems lay ! 1))" by (rule apart)
    show "pos_y (pp_position (lay_problems lay ! 5)) +
      pos_height (pp_position (lay_problems lay ! 5)) \<le> pageSize_height lay" by (rule fits)
  qed
qed

end
